theory Spec2Isabelle
  imports Complex_Main "HOL-Library.List_Lexorder"
begin

section \<open>Python strings\<close>

text \<open>
  A Python \<^verbatim>\<open>str\<close> is a sequence of Unicode code points. It is modelled as a list of
  natural numbers, one per code point, so that \<open>length\<close> is Python's \<^verbatim>\<open>len\<close> and
  characters outside ASCII (the en dash of a unit pattern, accented letters of a name) are
  single elements. \<open>lit\<close> turns an ASCII literal of the theory into such a string.
\<close>

type_synonym pystr = "nat list"

definition lit :: "string \<Rightarrow> pystr" where
  "lit s = map of_char s"

text \<open>Python's \<^verbatim>\<open>str(n)\<close> for an integer: decimal digits, with a minus sign.\<close>

fun str_nat :: "nat \<Rightarrow> pystr" where
  "str_nat n = (if n < 10 then [48 + n] else str_nat (n div 10) @ [48 + n mod 10])"

definition str_int :: "int \<Rightarrow> pystr" where
  "str_int i = (if i < 0 then 45 # str_nat (nat (- i)) else str_nat (nat i))"

text \<open>\<^verbatim>\<open>sep.join(parts)\<close>.\<close>

fun join :: "pystr \<Rightarrow> pystr list \<Rightarrow> pystr" where
  "join sep [] = []"
| "join sep [p] = p"
| "join sep (p # q # ps) = p @ sep @ join sep (q # ps)"

section \<open>Data model of the transcript extractor\<close>

text \<open>
  \<^verbatim>\<open>CleanedUnit\<close> and \<^verbatim>\<open>TranscriptData\<close> of
  \<^verbatim>\<open>core/services/transcript_data_extractor.py\<close>. The field \<^verbatim>\<open>units\<close> of a
  \<^verbatim>\<open>CleanedUnit\<close> is \<open>unit_units\<close> here, and its \<^verbatim>\<open>confidence\<close> is
  \<open>unit_confidence\<close>, because \<^verbatim>\<open>TranscriptData\<close> and the other result classes have
  fields of the same names. Floats that the code only stores and compares with constants are
  rationals. \<^verbatim>\<open>TranscriptData\<close> is polymorphic in the element type of \<^verbatim>\<open>units\<close>:
  the extractor fills it with \<^verbatim>\<open>CleanedUnit\<close> objects, the verification view
  also accepts dictionaries.
\<close>

record cleaned_unit =
  code :: pystr
  title :: pystr
  grade :: pystr
  unit_units :: int
  status :: pystr
  unit_confidence :: rat

record 'u transcript_data =
  student_name :: pystr
  student_id :: pystr
  program :: pystr
  year :: int
  semester :: int
  units :: "'u list"
  total_units :: int
  completed_units :: int

section \<open>Eligibility evaluation\<close>

text \<open>
  \<^verbatim>\<open>DocumentVerificationView._calculate_eligibility\<close> of
  \<^verbatim>\<open>core/views/document_verification_views.py\<close>, lines 507 to 572, and the selection
  of \<^verbatim>\<open>required_units\<close> by its caller, lines 372 to 377. The \<^verbatim>\<open>student\<close>
  argument is not read by the function and is left out.

  A unit of the transcript is an object with a \<^verbatim>\<open>status\<close> attribute, a dictionary,
  or anything else; line 525 reads the status of each kind.
\<close>

datatype unit_like =
  UnitObj cleaned_unit
| UnitDict "(pystr \<times> pystr) list"
| UnitOther

fun unit_status :: "unit_like \<Rightarrow> pystr" where
  "unit_status (UnitObj u) = status u"
| "unit_status (UnitDict d) = (case map_of d (lit ''status'') of Some s \<Rightarrow> s | None \<Rightarrow> lit ''complete'')"
| "unit_status UnitOther = lit ''complete''"

record name_match_result =
  is_match :: bool
  match_confidence :: rat
  normalized_registered :: pystr
  normalized_extracted :: pystr

record eligibility =
  overall :: bool
  name_matched :: bool
  has_required_units :: bool
  no_incompletes :: bool
  meets_year_requirement :: bool
  required_units :: int
  elig_completed_units :: int
  incomplete_count :: int
  summary :: pystr

definition calculate_eligibility ::
  "unit_like transcript_data \<Rightarrow> name_match_result \<Rightarrow> int \<Rightarrow> bool \<Rightarrow> eligibility" where
  "calculate_eligibility td nm req is_degree =
    (let nmatched = is_match nm;
         has_req = (completed_units td \<ge> req);
         eligibility_year = (if is_degree then 3 else 2);
         eligibility_semester = 2;
         incomplete_units = filter (\<lambda>u. unit_status u = lit ''incomplete'') (units td);
         current_year = year td;
         current_semester = semester td;
         past_eligibility = (current_year > eligibility_year \<or>
            (current_year = eligibility_year \<and> current_semester \<ge> eligibility_semester));
         no_inc = (if past_eligibility then True else length incomplete_units = 0);
         year_requirement =
           (if is_degree then (year td = 3 \<and> semester td \<ge> 2) \<or> year td > 3
            else (year td = 2 \<and> semester td \<ge> 2) \<or> year td > 2);
         overall_eligible = (nmatched \<and> has_req \<and> no_inc \<and> year_requirement);
         summary_parts =
           (if \<not> nmatched
            then [lit ''Name mismatch (extracted: '' @ [39] @ student_name td @ [39] @ lit '')'']
            else []) @
           (if \<not> has_req
            then [lit ''Insufficient units ('' @ str_int (completed_units td) @ lit ''/'' @
                  str_int req @ lit '')'']
            else []) @
           (if \<not> no_inc \<and> \<not> past_eligibility
            then [str_int (int (length incomplete_units)) @
                  lit '' incomplete units before eligibility period'']
            else []) @
           (if \<not> year_requirement
            then [lit ''Must reach '' @
                  (if is_degree then lit ''Year 3 Sem 2'' else lit ''Year 2 Sem 2'') @
                  lit '' (currently Year '' @ str_int (year td) @ lit '', Sem '' @
                  str_int (semester td) @ lit '')'']
            else [])
     in \<lparr> overall = overall_eligible,
          name_matched = nmatched,
          has_required_units = has_req,
          no_incompletes = no_inc,
          meets_year_requirement = year_requirement,
          required_units = req,
          elig_completed_units = completed_units td,
          incomplete_count = (if \<not> past_eligibility then int (length incomplete_units) else 0),
          summary = (if summary_parts \<noteq> [] then join (lit ''; '') summary_parts
                     else lit ''All requirements met'') \<rparr>)"

text \<open>
  Lines 372 to 377: the caller passes 39 required units for a degree programme and 20
  otherwise. Whether the programme is a degree (a substring test on the lowercased
  programme names, line 372) is the argument \<open>is_degree\<close>.
\<close>

definition select_required_units :: "bool \<Rightarrow> int" where
  "select_required_units is_degree = (if is_degree then 39 else 20)"

definition eligibility_for ::
  "bool \<Rightarrow> unit_like transcript_data \<Rightarrow> name_match_result \<Rightarrow> eligibility" where
  "eligibility_for is_degree td nm =
     calculate_eligibility td nm (select_required_units is_degree) is_degree"

text \<open>The transcript of the spec's example: year 4, semester 2, a given number of completed units.\<close>

definition example_transcript :: "int \<Rightarrow> unit_like transcript_data" where
  "example_transcript n =
     \<lparr> student_name = lit ''Easton Michura Ochieng'', student_id = lit ''1046098'',
       program = lit ''Bachelor of Science in Computer Science'', year = 4, semester = 2,
       units = [], total_units = n, completed_units = n \<rparr>"

definition example_match :: name_match_result where
  "example_match = \<lparr> is_match = True, match_confidence = 1,
     normalized_registered = lit ''easton michura ochieng'',
     normalized_extracted = lit ''easton michura ochieng'' \<rparr>"

section \<open>Document analysis and the extraction orchestrator\<close>

text \<open>
  \<^verbatim>\<open>ComprehensiveEnhancedOCR\<close> of \<^verbatim>\<open>core/services/comprehensive_enhanced_ocr.py\<close>.
  PyMuPDF (\<^verbatim>\<open>fitz\<close>), pdfplumber, pdfminer and the OCR engines are libraries;
  what they return for a byte string is a parameter of the model, collected in the record
  \<open>pdf_backend\<close>. A call that raises returns \<open>None\<close>.

  A page that PyMuPDF opened is represented by what the code reads from it: the result of
  \<^verbatim>\<open>page.get_text()\<close>, the result of \<^verbatim>\<open>_process_pymupdf_blocks\<close> on its
  block dictionary, and the dictionary that \<^verbatim>\<open>_analyze_page\<close> computes (that method
  catches its own exceptions and always returns). A pdfplumber page is the result of
  \<^verbatim>\<open>extract_text()\<close> (which may be \<^verbatim>\<open>None\<close>) and the text form of each of its
  tables. \<^verbatim>\<open>_calculate_text_quality\<close> is floating-point arithmetic over counts of
  regular-expression hits; it is the parameter \<open>text_quality\<close>, with rational values.
\<close>

type_synonym bytes = "nat list"

record page_analysis =
  text_blocks :: int
  image_blocks :: int
  table_candidates :: int
  page_text_coverage :: rat
  digital_score :: int
  scanned_score :: int
  table_score :: int
  complex_layout_score :: int

record fitz_page =
  get_text :: pystr
  blocks_text :: pystr
  analysed :: page_analysis

record plumber_page =
  extract_text :: "pystr option"
  table_texts :: "pystr list"

record extraction_method =
  name :: pystr
  method_confidence :: rat
  text_length :: nat
  success :: bool

record pdf_backend =
  fitz_open :: "bytes \<Rightarrow> fitz_page list option"
  pdfplumber_open :: "bytes \<Rightarrow> plumber_page list option"
  pdfminer_extract_text :: "bytes \<Rightarrow> nat \<Rightarrow> pystr option"
  text_quality :: "pystr \<Rightarrow> rat"
  pdf2image_available :: bool
  doctr_model :: bool
  extract_with_tesseract_enhanced :: "bytes \<Rightarrow> extraction_method"
  extract_with_doctr :: "bytes \<Rightarrow> extraction_method"
  extract_with_pymupdf_ocr :: "bytes \<Rightarrow> extraction_method"

record document_analysis =
  is_digital :: bool
  is_scanned :: bool
  has_tables :: bool
  has_complex_layout :: bool
  text_coverage :: rat
  image_coverage :: rat
  page_count :: int
  recommended_method :: pystr
  analysis_confidence :: rat

text \<open>The \<^verbatim>\<open>except\<close> branch of \<^verbatim>\<open>analyze_document\<close>, lines 224 to 237.\<close>

definition analysis_failed :: document_analysis where
  "analysis_failed =
     \<lparr> is_digital = False, is_scanned = True, has_tables = False, has_complex_layout = False,
       text_coverage = 0, image_coverage = 100, page_count = 1,
       recommended_method = lit ''advanced_ocr'', analysis_confidence = 1 / 2 \<rparr>"

text \<open>
  \<^verbatim>\<open>analyze_document\<close>, lines 135 to 237. The whole body is inside
  \<^verbatim>\<open>try\<close>: a failing \<^verbatim>\<open>fitz.open\<close> and the division by
  \<^verbatim>\<open>pages_to_analyze\<close> of a document without pages both end in the
  \<^verbatim>\<open>except\<close> branch. The \<^verbatim>\<open>analysis_details\<close> dictionary is not modelled.
\<close>

definition analyze_document :: "pdf_backend \<Rightarrow> bytes \<Rightarrow> document_analysis" where
  "analyze_document lib pdf_bytes =
    (case fitz_open lib pdf_bytes of
       None \<Rightarrow> analysis_failed
     | Some doc \<Rightarrow>
        (let page_cnt = int (length doc);
             pages_to_analyze = min 5 page_cnt;
             pas = map analysed (take (nat pages_to_analyze) doc);
             total_image_blocks = sum_list (map image_blocks pas);
             total_text_coverage = sum_list (map page_text_coverage pas);
             digital_indicators = sum_list (map digital_score pas);
             scanned_indicators = sum_list (map scanned_score pas);
             table_indicators = sum_list (map table_score pas);
             complex_layout_indicators = sum_list (map complex_layout_score pas)
         in if pages_to_analyze = 0 then analysis_failed
            else
             (let avg_text_coverage = total_text_coverage / of_int pages_to_analyze;
                  avg_image_coverage = (of_int total_image_blocks / of_int pages_to_analyze) * 10;
                  digital = (digital_indicators > scanned_indicators);
                  scanned = (scanned_indicators > digital_indicators);
                  tables = (table_indicators > pages_to_analyze * 2);
                  complex_layout = (complex_layout_indicators > pages_to_analyze);
                  recommended =
                    (if digital \<and> tables then lit ''digital_with_tables''
                     else if digital then lit ''digital_text''
                     else if scanned \<and> tables then lit ''ocr_with_tables''
                     else if scanned then lit ''advanced_ocr''
                     else lit ''hybrid'');
                  total_indicators = digital_indicators + scanned_indicators;
                  conf = of_int (max digital_indicators scanned_indicators) /
                         of_int (max total_indicators 1)
              in \<lparr> is_digital = digital, is_scanned = scanned, has_tables = tables,
                   has_complex_layout = complex_layout, text_coverage = avg_text_coverage,
                   image_coverage = avg_image_coverage, page_count = page_cnt,
                   recommended_method = recommended, analysis_confidence = conf \<rparr>)))"

text \<open>\<^verbatim>\<open>needle in haystack\<close> for strings.\<close>

fun starts_with :: "pystr \<Rightarrow> pystr \<Rightarrow> bool" where
  "starts_with [] s = True"
| "starts_with (p # ps) [] = False"
| "starts_with (p # ps) (c # cs) = (p = c \<and> starts_with ps cs)"

fun contains :: "pystr \<Rightarrow> pystr \<Rightarrow> bool" where
  "contains needle [] = (needle = [])"
| "contains needle (c # cs) = (starts_with needle (c # cs) \<or> contains needle cs)"

text \<open>
  The three digital methods, lines 468 to 604: each returns an \<^verbatim>\<open>ExtractionMethod\<close>
  and keeps the text it read to itself. \<open>*_text\<close> is that text (\<^verbatim>\<open>combined_text\<close>,
  \<^verbatim>\<open>best_text\<close>), \<open>None\<close> when the method ends in its \<^verbatim>\<open>except\<close> branch.
\<close>

definition page_header :: "nat \<Rightarrow> pystr" where
  "page_header page_num = lit ''\<newline>--- Page '' @ str_nat (page_num + 1) @ lit '' ---\<newline>''"

definition pymupdf_enhanced_text :: "pdf_backend \<Rightarrow> bytes \<Rightarrow> pystr option" where
  "pymupdf_enhanced_text lib pdf_bytes =
     (case fitz_open lib pdf_bytes of
        None \<Rightarrow> None
      | Some doc \<Rightarrow>
          Some (concat (map (\<lambda>(page_num, page). page_header page_num @ blocks_text page)
                  (enumerate 0 (take 20 doc)))))"

definition pdfplumber_page_text :: "plumber_page \<Rightarrow> pystr" where
  "pdfplumber_page_text page =
     (case extract_text page of None \<Rightarrow> [] | Some t \<Rightarrow> t) @
     concat (map (\<lambda>(table_idx, table_text).
         lit ''\<newline>\<newline>[TABLE '' @ str_nat (table_idx + 1) @ lit '']\<newline>'' @ table_text @ lit ''\<newline>'')
       (enumerate 0 (table_texts page)))"

definition pdfplumber_enhanced_text :: "pdf_backend \<Rightarrow> bytes \<Rightarrow> pystr option" where
  "pdfplumber_enhanced_text lib pdf_bytes =
     (case pdfplumber_open lib pdf_bytes of
        None \<Rightarrow> None
      | Some pages \<Rightarrow>
          Some (concat (map (\<lambda>(page_num, page). page_header page_num @ pdfplumber_page_text page)
                  (enumerate 0 (take 20 pages)))))"

text \<open>The loop over the three layout configurations of pdfminer, lines 573 to 584.\<close>

fun pdfminer_best :: "pdf_backend \<Rightarrow> bytes \<Rightarrow> nat list \<Rightarrow> pystr \<times> rat \<Rightarrow> pystr \<times> rat" where
  "pdfminer_best lib pdf_bytes [] best = best"
| "pdfminer_best lib pdf_bytes (cfg # cfgs) (best_text, best_confidence) =
     (case pdfminer_extract_text lib pdf_bytes cfg of
        None \<Rightarrow> pdfminer_best lib pdf_bytes cfgs (best_text, best_confidence)
      | Some t \<Rightarrow>
          (if text_quality lib t > best_confidence
           then pdfminer_best lib pdf_bytes cfgs (t, text_quality lib t)
           else pdfminer_best lib pdf_bytes cfgs (best_text, best_confidence)))"

definition pdfminer_enhanced_text :: "pdf_backend \<Rightarrow> bytes \<Rightarrow> pystr option" where
  "pdfminer_enhanced_text lib pdf_bytes = Some (fst (pdfminer_best lib pdf_bytes [0, 1, 2] ([], 0)))"

definition extract_with_pymupdf_enhanced :: "pdf_backend \<Rightarrow> bytes \<Rightarrow> extraction_method" where
  "extract_with_pymupdf_enhanced lib pdf_bytes =
     (case pymupdf_enhanced_text lib pdf_bytes of
        Some combined_text \<Rightarrow>
          \<lparr> name = lit ''pymupdf_enhanced'', method_confidence = text_quality lib combined_text,
            text_length = length combined_text, success = True \<rparr>
      | None \<Rightarrow>
          \<lparr> name = lit ''pymupdf_enhanced'', method_confidence = 0, text_length = 0,
            success = False \<rparr>)"

definition extract_with_pdfplumber_enhanced :: "pdf_backend \<Rightarrow> bytes \<Rightarrow> extraction_method" where
  "extract_with_pdfplumber_enhanced lib pdf_bytes =
     (case pdfplumber_enhanced_text lib pdf_bytes of
        Some combined_text \<Rightarrow>
          \<lparr> name = lit ''pdfplumber_enhanced'', method_confidence = text_quality lib combined_text,
            text_length = length combined_text, success = True \<rparr>
      | None \<Rightarrow>
          \<lparr> name = lit ''pdfplumber_enhanced'', method_confidence = 0, text_length = 0,
            success = False \<rparr>)"

definition extract_with_pdfminer_enhanced :: "pdf_backend \<Rightarrow> bytes \<Rightarrow> extraction_method" where
  "extract_with_pdfminer_enhanced lib pdf_bytes =
     (let (best_text, best_confidence) = pdfminer_best lib pdf_bytes [0, 1, 2] ([], 0)
      in \<lparr> name = lit ''pdfminer_enhanced'', method_confidence = best_confidence,
           text_length = length best_text, success = (best_confidence > 0) \<rparr>)"

text \<open>
  \<^verbatim>\<open>_get_method_text\<close>, lines 938 to 965, and \<^verbatim>\<open>_get_page_count\<close>, lines 967
  to 975. The bare \<^verbatim>\<open>except\<close> turns every failure into the empty string (one page).
\<close>

definition fitz_plain_text :: "pdf_backend \<Rightarrow> bytes \<Rightarrow> pystr" where
  "fitz_plain_text lib pdf_bytes =
     (case fitz_open lib pdf_bytes of
        None \<Rightarrow> []
      | Some doc \<Rightarrow> concat (map (\<lambda>page. get_text page @ lit ''\<newline>'') doc))"

definition get_method_text :: "pdf_backend \<Rightarrow> bytes \<Rightarrow> pystr \<Rightarrow> bool \<Rightarrow> pystr" where
  "get_method_text lib pdf_bytes method_name is_ocr =
     (if contains (lit ''pymupdf'') method_name \<and> \<not> is_ocr then fitz_plain_text lib pdf_bytes
      else if contains (lit ''pdfplumber'') method_name then
        (case pdfplumber_open lib pdf_bytes of
           None \<Rightarrow> []
         | Some pages \<Rightarrow>
             concat (map (\<lambda>page. (case extract_text page of None \<Rightarrow> [] | Some t \<Rightarrow> t) @
                                   lit ''\<newline>'') pages))
      else fitz_plain_text lib pdf_bytes)"

definition get_page_count :: "pdf_backend \<Rightarrow> bytes \<Rightarrow> int" where
  "get_page_count lib pdf_bytes =
     (case fitz_open lib pdf_bytes of None \<Rightarrow> 1 | Some doc \<Rightarrow> int (length doc))"

text \<open>
  \<^verbatim>\<open>max(successful_methods, key=lambda x: x.confidence)\<close>: the first element of the
  greatest confidence.
\<close>

fun max_confidence :: "extraction_method \<Rightarrow> extraction_method list \<Rightarrow> extraction_method" where
  "max_confidence best [] = best"
| "max_confidence best (m # ms) =
     max_confidence (if method_confidence m > method_confidence best then m else best) ms"

record enhanced_extraction_result =
  text_of :: pystr
  primary_method :: pystr
  result_confidence :: rat
  result_page_count :: int
  methods_tried :: "extraction_method list"
  extraction_strategy :: pystr

text \<open>
  \<^verbatim>\<open>extract_digital_text_enhanced\<close>, lines 353 to 411. In the fallback branch the
  code joins the names of the successful methods into \<^verbatim>\<open>combined_text\<close> (line 381)
  and never reads that variable again: the text of the result is
  \<^verbatim>\<open>_get_method_text(pdf_bytes, "combined")\<close>. The tables and the
  \<^verbatim>\<open>structured_data\<close> dictionary of the result are not modelled.
\<close>

definition extract_digital_text_enhanced ::
  "pdf_backend \<Rightarrow> bytes \<Rightarrow> enhanced_extraction_result" where
  "extract_digital_text_enhanced lib pdf_bytes =
    (let tried = [extract_with_pymupdf_enhanced lib pdf_bytes,
                  extract_with_pdfplumber_enhanced lib pdf_bytes,
                  extract_with_pdfminer_enhanced lib pdf_bytes];
         successful_methods = filter (\<lambda>m. success m \<and> method_confidence m > 1 / 10) tried;
         (primary, conf) =
           (case successful_methods of
              m # ms \<Rightarrow> (name (max_confidence m ms), method_confidence (max_confidence m ms))
            | [] \<Rightarrow> (lit ''combined'', 1 / 10));
         final_text = get_method_text lib pdf_bytes primary False
     in \<lparr> text_of = final_text, primary_method = primary, result_confidence = conf,
          result_page_count = get_page_count lib pdf_bytes, methods_tried = tried,
          extraction_strategy = lit ''digital_enhanced'' \<rparr>)"

text \<open>\<^verbatim>\<open>extract_with_advanced_ocr\<close>, lines 413 to 466.\<close>

definition extract_with_advanced_ocr ::
  "pdf_backend \<Rightarrow> bytes \<Rightarrow> enhanced_extraction_result" where
  "extract_with_advanced_ocr lib pdf_bytes =
    (let tried =
           (if pdf2image_available lib then [extract_with_tesseract_enhanced lib pdf_bytes] else []) @
           (if doctr_model lib then [extract_with_doctr lib pdf_bytes] else []) @
           [extract_with_pymupdf_ocr lib pdf_bytes];
         successful_methods = filter (\<lambda>m. success m \<and> method_confidence m > 1 / 20) tried;
         (primary, conf) =
           (case successful_methods of
              m # ms \<Rightarrow> (name (max_confidence m ms), method_confidence (max_confidence m ms))
            | [] \<Rightarrow> (lit ''ocr_failed'', 0));
         final_text = get_method_text lib pdf_bytes primary True
     in \<lparr> text_of = final_text, primary_method = primary, result_confidence = conf,
          result_page_count = get_page_count lib pdf_bytes, methods_tried = tried,
          extraction_strategy = lit ''advanced_ocr'' \<rparr>)"

text \<open>\<^verbatim>\<open>process_document_comprehensive\<close>, lines 977 to 1006.\<close>

definition process_document_comprehensive ::
  "pdf_backend \<Rightarrow> bytes \<Rightarrow> enhanced_extraction_result" where
  "process_document_comprehensive lib pdf_bytes =
    (let analysis = analyze_document lib pdf_bytes
     in if recommended_method analysis \<in> set [lit ''digital_text'', lit ''digital_with_tables'']
        then extract_digital_text_enhanced lib pdf_bytes
        else if recommended_method analysis \<in> set [lit ''advanced_ocr'', lit ''ocr_with_tables'']
        then extract_with_advanced_ocr lib pdf_bytes
        else (let digital_result = extract_digital_text_enhanced lib pdf_bytes
              in if result_confidence digital_result < 3 / 10
                 then extract_with_advanced_ocr lib pdf_bytes
                 else digital_result))"

text \<open>
  The fallback as the specification words it: the texts that the attempted digital methods
  read, the empty ones dropped, joined by newlines as line 381 joins.
\<close>

definition spec_combined_text :: "pdf_backend \<Rightarrow> bytes \<Rightarrow> pystr" where
  "spec_combined_text lib pdf_bytes =
     join (lit ''\<newline>'')
       (filter (\<lambda>t. t \<noteq> [])
          (map (\<lambda>t. case t of None \<Rightarrow> [] | Some s \<Rightarrow> s)
             [pymupdf_enhanced_text lib pdf_bytes, pdfplumber_enhanced_text lib pdf_bytes,
              pdfminer_enhanced_text lib pdf_bytes]))"

text \<open>
  Two documents for evaluation. \<open>unreadable_backend\<close>: bytes that no library opens and
  no OCR engine reads. \<open>scanned_backend\<close>: a PDF of one scanned page, an image without a
  text layer; PyMuPDF and pdfplumber open it and find no text, pdfminer returns a form
  feed. Every text read from it is shorter than 20 characters after \<^verbatim>\<open>strip()\<close>, for
  which line 882 of \<^verbatim>\<open>_calculate_text_quality\<close> returns 0.0.
\<close>

definition failed_method :: "string \<Rightarrow> extraction_method" where
  "failed_method n = \<lparr> name = lit n, method_confidence = 0, text_length = 0, success = False \<rparr>"

definition unreadable_backend :: pdf_backend where
  "unreadable_backend =
     \<lparr> fitz_open = (\<lambda>b. None), pdfplumber_open = (\<lambda>b. None),
       pdfminer_extract_text = (\<lambda>b cfg. None), text_quality = (\<lambda>t. 0),
       pdf2image_available = True, doctr_model = False,
       extract_with_tesseract_enhanced = (\<lambda>b. failed_method ''tesseract_enhanced''),
       extract_with_doctr = (\<lambda>b. failed_method ''doctr''),
       extract_with_pymupdf_ocr = (\<lambda>b. failed_method ''pymupdf_ocr'') \<rparr>"

definition scanned_page :: fitz_page where
  "scanned_page =
     \<lparr> get_text = [], blocks_text = [],
       analysed = \<lparr> text_blocks = 0, image_blocks = 1, table_candidates = 0,
                    page_text_coverage = 0, digital_score = 0, scanned_score = 2,
                    table_score = 0, complex_layout_score = 0 \<rparr> \<rparr>"

definition scanned_backend :: pdf_backend where
  "scanned_backend =
     \<lparr> fitz_open = (\<lambda>b. Some [scanned_page]),
       pdfplumber_open = (\<lambda>b. Some [\<lparr> extract_text = None, table_texts = [] \<rparr>]),
       pdfminer_extract_text = (\<lambda>b cfg. Some [12]), text_quality = (\<lambda>t. 0),
       pdf2image_available = True, doctr_model = False,
       extract_with_tesseract_enhanced = (\<lambda>b. failed_method ''tesseract_enhanced''),
       extract_with_doctr = (\<lambda>b. failed_method ''doctr''),
       extract_with_pymupdf_ocr = (\<lambda>b. failed_method ''pymupdf_ocr'') \<rparr>"

section \<open>Unicode data and whitespace\<close>

text \<open>
  The functions of Python's \<^verbatim>\<open>unicodedata\<close> module and the character classes of
  \<^verbatim>\<open>re\<close> and \<^verbatim>\<open>str\<close> that depend on the Unicode character database are
  parameters of the model, collected in one record:
  \<^item> \<open>normalize_NFD\<close> is \<^verbatim>\<open>unicodedata.normalize('NFD', s)\<close>;
  \<^item> \<open>category_Mn c\<close> is \<^verbatim>\<open>unicodedata.category(c) == 'Mn'\<close>;
  \<^item> \<open>is_decimal\<close> is the class \<^verbatim>\<open>\d\<close> of a string pattern and \<open>decimal_value\<close>
    the value \<^verbatim>\<open>int\<close> gives such a digit;
  \<^item> \<open>is_word\<close> is the class \<^verbatim>\<open>\w\<close>, which also decides \<^verbatim>\<open>\b\<close>;
  \<^item> \<open>upper\<close> is \<^verbatim>\<open>str.upper()\<close>.
  Theorems hold for every such record; evaluations use \<open>ascii_unicodedata\<close>, which is
  what Python computes on ASCII text.

  The whitespace of \<^verbatim>\<open>str.split()\<close>, \<^verbatim>\<open>str.strip()\<close> and the class
  \<^verbatim>\<open>\s\<close> is the same fixed set of 29 code points (\<^verbatim>\<open>str.isspace\<close>).
\<close>

record unicodedata =
  normalize_NFD :: "pystr \<Rightarrow> pystr"
  category_Mn :: "nat \<Rightarrow> bool"
  is_decimal :: "nat \<Rightarrow> bool"
  decimal_value :: "nat \<Rightarrow> nat"
  is_word :: "nat \<Rightarrow> bool"
  upper :: "pystr \<Rightarrow> pystr"

definition is_space :: "nat \<Rightarrow> bool" where
  "is_space c = (c \<in> set [9, 10, 11, 12, 13, 28, 29, 30, 31, 32, 133, 160, 5760, 8192, 8193,
     8194, 8195, 8196, 8197, 8198, 8199, 8200, 8201, 8202, 8232, 8233, 8239, 8287, 12288])"

definition is_ascii_upper :: "nat \<Rightarrow> bool" where
  "is_ascii_upper c = (65 \<le> c \<and> c \<le> 90)"

definition is_ascii_lower :: "nat \<Rightarrow> bool" where
  "is_ascii_lower c = (97 \<le> c \<and> c \<le> 122)"

definition is_ascii_alpha :: "nat \<Rightarrow> bool" where
  "is_ascii_alpha c = (is_ascii_upper c \<or> is_ascii_lower c)"

definition is_ascii_digit :: "nat \<Rightarrow> bool" where
  "is_ascii_digit c = (48 \<le> c \<and> c \<le> 57)"

definition ascii_lower :: "nat \<Rightarrow> nat" where
  "ascii_lower c = (if is_ascii_upper c then c + 32 else c)"

definition ascii_upper :: "nat \<Rightarrow> nat" where
  "ascii_upper c = (if is_ascii_lower c then c - 32 else c)"

definition ascii_unicodedata :: unicodedata where
  "ascii_unicodedata =
     \<lparr> normalize_NFD = (\<lambda>s. s), category_Mn = (\<lambda>c. False),
       is_decimal = is_ascii_digit, decimal_value = (\<lambda>c. c - 48),
       is_word = (\<lambda>c. is_ascii_alpha c \<or> is_ascii_digit c \<or> c = 95),
       upper = map ascii_upper \<rparr>"

text \<open>\<^verbatim>\<open>s.split()\<close>: the maximal runs of characters that are not whitespace.\<close>

fun split_from :: "pystr \<Rightarrow> pystr \<Rightarrow> pystr list" where
  "split_from cur [] = (if cur = [] then [] else [cur])"
| "split_from cur (c # cs) =
     (if is_space c then (if cur = [] then split_from [] cs else cur # split_from [] cs)
      else split_from (cur @ [c]) cs)"

definition split_ws :: "pystr \<Rightarrow> pystr list" where
  "split_ws s = split_from [] s"

text \<open>\<^verbatim>\<open>s.strip()\<close>.\<close>

definition strip :: "pystr \<Rightarrow> pystr" where
  "strip s = rev (dropWhile is_space (rev (dropWhile is_space s)))"

text \<open>
  \<^verbatim>\<open>re.sub(r'\s+', ' ', s)\<close>: every maximal run of whitespace becomes one space.
  The flag says whether the previous character was whitespace.
\<close>

fun collapse_from :: "bool \<Rightarrow> pystr \<Rightarrow> pystr" where
  "collapse_from in_run [] = []"
| "collapse_from in_run (c # cs) =
     (if is_space c then (if in_run then collapse_from True cs else 32 # collapse_from True cs)
      else c # collapse_from False cs)"

definition collapse_whitespace :: "pystr \<Rightarrow> pystr" where
  "collapse_whitespace s = collapse_from False s"

section \<open>Name matching\<close>

text \<open>
  \<^verbatim>\<open>NameMatcher.normalize_name\<close>, lines 43 to 60 of
  \<^verbatim>\<open>transcript_data_extractor.py\<close>. \<open>name_tokens\<close> is the list \<^verbatim>\<open>name.split()\<close>
  of line 59. The substitution of line 54 deletes every character that is neither an ASCII
  letter nor whitespace; after lines 54 and 55 the string holds only ASCII letters and
  spaces, so the \<^verbatim>\<open>lower()\<close> of line 56 is the ASCII one.
\<close>

definition name_tokens :: "unicodedata \<Rightarrow> pystr \<Rightarrow> pystr list" where
  "name_tokens U n =
     (let n1 = normalize_NFD U n;
          n2 = filter (\<lambda>c. \<not> category_Mn U c) n1;
          n3 = filter (\<lambda>c. is_ascii_alpha c \<or> is_space c) n2;
          n4 = collapse_whitespace n3;
          n5 = map ascii_lower (strip n4)
      in split_ws n5)"

definition normalize_name :: "unicodedata \<Rightarrow> pystr \<Rightarrow> pystr" where
  "normalize_name U n =
     (if n = [] then []
      else join (lit '' '') (sort (filter (\<lambda>part. length part > 1) (name_tokens U n))))"

subsection \<open>\<^verbatim>\<open>difflib.SequenceMatcher(None, a, b).ratio()\<close>\<close>

text \<open>
  The standard library's algorithm, with no junk function and \<^verbatim>\<open>autojunk\<close> on:
  an element of \<open>b\<close> is popular when \<open>b\<close> has at least 200 elements and the element
  occurs more than \<open>len(b) // 100 + 1\<close> times; popular elements start no match.

  \<^verbatim>\<open>find_longest_match\<close> goes through \<open>a\<close>; \<open>j2len\<close> holds, for every position
  \<open>j\<close> of \<open>b\<close>, the length of the longest match ending at the current position of
  \<open>a\<close> and at \<open>j\<close>. The best match is replaced only by a strictly longer one, so the
  earliest in \<open>a\<close>, then the earliest in \<open>b\<close>, wins. The match is then extended to
  the left and to the right over equal elements (the two further loops of difflib extend
  over junk, and there is none). Positions are relative to the window searched.
\<close>

definition popular :: "pystr \<Rightarrow> nat \<Rightarrow> bool" where
  "popular b elt = (length b \<ge> 200 \<and> count_list b elt > length b div 100 + 1)"

definition lcs_row :: "(nat \<Rightarrow> bool) \<Rightarrow> nat \<Rightarrow> pystr \<Rightarrow> nat list \<Rightarrow> nat list" where
  "lcs_row pop ai b j2len =
     map (\<lambda>(bj, p). if bj = ai \<and> \<not> pop bj then p + 1 else 0) (zip b (0 # j2len))"

fun scan_row :: "nat \<Rightarrow> nat \<Rightarrow> nat list \<Rightarrow> nat \<times> nat \<times> nat \<Rightarrow> nat \<times> nat \<times> nat" where
  "scan_row i j [] best = best"
| "scan_row i j (k # ks) (besti, bestj, bestsize) =
     scan_row i (j + 1) ks
       (if k > bestsize then (i + 1 - k, j + 1 - k, k) else (besti, bestj, bestsize))"

fun longest_rows ::
  "(nat \<Rightarrow> bool) \<Rightarrow> pystr \<Rightarrow> nat \<Rightarrow> pystr \<Rightarrow> nat list \<Rightarrow> nat \<times> nat \<times> nat \<Rightarrow> nat \<times> nat \<times> nat" where
  "longest_rows pop [] i b j2len best = best"
| "longest_rows pop (ai # as) i b j2len best =
     (let newj2len = lcs_row pop ai b j2len
      in longest_rows pop as (i + 1) b newj2len (scan_row i 0 newj2len best))"

fun common_prefix_length :: "pystr \<Rightarrow> pystr \<Rightarrow> nat" where
  "common_prefix_length (x # xs) (y # ys) = (if x = y then 1 + common_prefix_length xs ys else 0)"
| "common_prefix_length xs ys = 0"

definition find_longest_match :: "(nat \<Rightarrow> bool) \<Rightarrow> pystr \<Rightarrow> pystr \<Rightarrow> nat \<times> nat \<times> nat" where
  "find_longest_match pop a b =
     (let (besti, bestj, bestsize) = longest_rows pop a 0 b (replicate (length b) 0) (0, 0, 0);
          e = common_prefix_length (rev (take besti a)) (rev (take bestj b));
          (besti, bestj, bestsize) = (besti - e, bestj - e, bestsize + e);
          f = common_prefix_length (drop (besti + bestsize) a) (drop (bestj + bestsize) b)
      in (besti, bestj, bestsize + f))"

text \<open>
  \<^verbatim>\<open>get_matching_blocks\<close>: the longest match, then the same to its left and to its
  right; \<open>matching_size\<close> is the sum of the sizes of the blocks. The test that the match
  lies inside both windows is an invariant of difflib; written out, it makes the recursion
  terminate by construction.
\<close>

function matching_size :: "(nat \<Rightarrow> bool) \<Rightarrow> pystr \<Rightarrow> pystr \<Rightarrow> nat" where
  "matching_size pop a b =
     (let (i, j, k) = find_longest_match pop a b
      in if k = 0 \<or> length a < i + k \<or> length b < j + k then 0
         else k + (if 0 < i \<and> 0 < j then matching_size pop (take i a) (take j b) else 0)
                + (if i + k < length a \<and> j + k < length b
                   then matching_size pop (drop (i + k) a) (drop (j + k) b) else 0))"
  by pat_completeness auto
termination
  by (relation "measure (\<lambda>(pop, a, b). length a)") auto

definition ratio :: "pystr \<Rightarrow> pystr \<Rightarrow> rat" where
  "ratio a b =
     (if length a + length b = 0 then 1
      else 2 * of_nat (matching_size (popular b) a b) / of_nat (length a + length b))"

subsection \<open>Similarity and the match result\<close>

text \<open>
  \<^verbatim>\<open>NameMatcher.calculate_similarity\<close>, lines 62 to 90, and
  \<^verbatim>\<open>NameMatcher.match_names\<close>, lines 92 to 104. The similarity is a float in the
  code; it is the exact rational here. The two agree on the comparison with 0.7 as long
  as the names have fewer than \<open>10\<^sup>1\<^sup>5\<close> characters, because a ratio
  \<open>2m/t\<close> different from \<open>7/10\<close> is at least \<open>1/(10t)\<close> away from it. The
  \<^verbatim>\<open>method\<close> and \<^verbatim>\<open>explanation\<close> entries of the result are not modelled.
\<close>

definition calculate_similarity :: "unicodedata \<Rightarrow> pystr \<Rightarrow> pystr \<Rightarrow> rat" where
  "calculate_similarity U name1 name2 =
     (if name1 = [] \<or> name2 = [] then 0
      else
       (let norm1 = normalize_name U name1;
            norm2 = normalize_name U name2
        in if norm1 = norm2 then 1
           else
            (let seq_sim = ratio norm1 norm2;
                 parts1 = set (split_ws norm1);
                 parts2 = set (split_ws norm2)
             in if parts1 \<subseteq> parts2 \<or> parts2 \<subseteq> parts1 then max (8 / 10) seq_sim
                else
                 (let common_parts = parts1 \<inter> parts2
                  in if common_parts \<noteq> {} then
                       (let coverage = of_nat (card common_parts) /
                                       of_nat (max (card parts1) (card parts2))
                        in max seq_sim (coverage * (7 / 10)))
                     else seq_sim))))"

definition match_names :: "unicodedata \<Rightarrow> pystr \<Rightarrow> pystr \<Rightarrow> name_match_result" where
  "match_names U registered_name extracted_name =
     (let similarity = calculate_similarity U registered_name extracted_name
      in \<lparr> is_match = (similarity \<ge> 7 / 10),
           match_confidence = similarity,
           normalized_registered = normalize_name U registered_name,
           normalized_extracted = normalize_name U extracted_name \<rparr>)"

text \<open>
  Two names differ only in single-letter tokens when their token lists (the lists
  \<^verbatim>\<open>name.split()\<close> that \<^verbatim>\<open>normalize_name\<close> computes) are equal once the tokens
  of length at most 1 are removed.
\<close>

definition differ_only_in_short_tokens :: "unicodedata \<Rightarrow> pystr \<Rightarrow> pystr \<Rightarrow> bool" where
  "differ_only_in_short_tokens U a b =
     (filter (\<lambda>t. 1 < length t) (name_tokens U a) = filter (\<lambda>t. 1 < length t) (name_tokens U b))"

text \<open>
  A token is a non-empty string without whitespace; the tokens of a normalized name are
  made of lowercase ASCII letters.
\<close>

definition is_token :: "pystr \<Rightarrow> bool" where
  "is_token t = (t \<noteq> [] \<and> (\<forall>c\<in>set t. \<not> is_space c))"

definition lower_token :: "pystr \<Rightarrow> bool" where
  "lower_token t = (t \<noteq> [] \<and> (\<forall>c\<in>set t. is_ascii_lower c))"

section \<open>Regular expressions\<close>

text \<open>
  The patterns of the extractor are values of the datatype \<open>rx\<close>, one constructor per
  construct of Python's \<^verbatim>\<open>re\<close> that they use: literal characters, character
  classes (with ranges and the categories \<^verbatim>\<open>\d\<close>, \<^verbatim>\<open>\s\<close>, \<^verbatim>\<open>\w\<close>),
  concatenation, alternation, greedy repetition \<^verbatim>\<open>{m,n}\<close> (\<open>None\<close> for no upper
  bound), capturing groups and \<^verbatim>\<open>\b\<close>. A non-capturing group is plain nesting.
\<close>

datatype cset_item = CChar nat | CRange nat nat | CDigit | CSpace | CWord

datatype rx =
    Empty
  | Lit nat
  | Class bool "cset_item list"
  | Seq rx rx
  | Alt rx rx
  | Rep nat "nat option" rx
  | Group nat rx
  | WordBoundary

text \<open>Abbreviations for writing patterns next to their source text.\<close>

definition one :: "char \<Rightarrow> cset_item" where
  "one c = CChar (of_char c)"

definition rng :: "char \<Rightarrow> char \<Rightarrow> cset_item" where
  "rng a b = CRange (of_char a) (of_char b)"

fun seqs :: "rx list \<Rightarrow> rx" where
  "seqs [] = Empty"
| "seqs [r] = r"
| "seqs (r # rs) = Seq r (seqs rs)"

definition chars :: "string \<Rightarrow> cset_item list" where
  "chars s = map one s"

fun alts :: "rx list \<Rightarrow> rx" where
  "alts [] = Empty"
| "alts [r] = r"
| "alts (r # rs) = Alt r (alts rs)"

definition rx_upper :: rx where
  "rx_upper = Class False [rng CHR ''A'' CHR ''Z'']"

definition rx_digit :: rx where
  "rx_digit = Class False [CDigit]"

definition rx_space :: rx where
  "rx_space = Class False [CSpace]"

definition rx_spaces :: rx where
  "rx_spaces = Rep 1 None rx_space"

definition rx_opt_spaces :: rx where
  "rx_opt_spaces = Rep 0 None rx_space"

definition rx_digits :: rx where
  "rx_digits = Rep 1 None rx_digit"

definition rx_letter_grade :: rx where
  "rx_letter_grade = seqs [Class False [rng CHR ''A'' CHR ''F''], Rep 0 (Some 1) (Class False (chars ''+-''))]"

definition word :: "string \<Rightarrow> rx" where
  "word s = seqs (map (\<lambda>c. Lit (of_char c)) s)"

text \<open>
  With \<^verbatim>\<open>re.IGNORECASE\<close> a character of the text matches a pattern character when
  one of its case variants does. All pattern characters of the source are ASCII (or the
  en dash, which has no case), and the characters that Python folds onto ASCII letters
  are the letters themselves and four more: U+0130 and U+0131 (onto I), U+017F (onto S)
  and U+212A (onto K).
\<close>

definition fold_case :: "nat \<Rightarrow> nat" where
  "fold_case c =
     (if is_ascii_lower c then c - 32
      else if c = 304 \<or> c = 305 then 73
      else if c = 383 then 83
      else if c = 8490 then 75
      else c)"

definition case_variants :: "bool \<Rightarrow> nat \<Rightarrow> nat list" where
  "case_variants ignorecase c =
     (if ignorecase then [c, fold_case c, ascii_lower (fold_case c)] else [c])"

fun item_matches :: "unicodedata \<Rightarrow> bool \<Rightarrow> cset_item \<Rightarrow> nat \<Rightarrow> bool" where
  "item_matches U ic (CChar x) c = (x \<in> set (case_variants ic c))"
| "item_matches U ic (CRange lo hi) c = (\<exists>v\<in>set (case_variants ic c). lo \<le> v \<and> v \<le> hi)"
| "item_matches U ic CDigit c = is_decimal U c"
| "item_matches U ic CSpace c = is_space c"
| "item_matches U ic CWord c = is_word U c"

text \<open>
  The matcher is a backtracking matcher in continuation-passing style, as Python's is:
  alternatives are tried in order, a repetition first tries one more iteration and then
  the rest of the pattern, and the first complete match wins. A state holds the previous
  character (for \<^verbatim>\<open>\b\<close>), the rest of the text and the groups captured so far,
  the latest first. A repetition without upper bound runs at most once per remaining
  character; every repeated sub-pattern of the source consumes at least one character.
\<close>

record mstate =
  m_prev :: "nat option"
  m_rest :: pystr
  m_caps :: "(nat \<times> pystr) list"

type_synonym cont = "mstate \<Rightarrow> mstate option"

primrec rep :: "(cont \<Rightarrow> cont) \<Rightarrow> nat \<Rightarrow> nat \<Rightarrow> cont \<Rightarrow> cont" where
  "rep body lo 0 k s = (if lo = 0 then k s else None)"
| "rep body lo (Suc hi) k s =
     (case body (rep body (lo - 1) hi k) s of
        Some r \<Rightarrow> Some r
      | None \<Rightarrow> if lo = 0 then k s else None)"

definition is_word_opt :: "unicodedata \<Rightarrow> nat option \<Rightarrow> bool" where
  "is_word_opt U c = (case c of None \<Rightarrow> False | Some x \<Rightarrow> is_word U x)"

primrec rx_match :: "rx \<Rightarrow> unicodedata \<Rightarrow> bool \<Rightarrow> cont \<Rightarrow> cont" where
  "rx_match Empty U ic k s = k s"
| "rx_match (Lit x) U ic k s =
     (case m_rest s of
        [] \<Rightarrow> None
      | c # cs \<Rightarrow> if x \<in> set (case_variants ic c) then k (s\<lparr>m_prev := Some c, m_rest := cs\<rparr>) else None)"
| "rx_match (Class negated items) U ic k s =
     (case m_rest s of
        [] \<Rightarrow> None
      | c # cs \<Rightarrow> if (\<exists>i\<in>set items. item_matches U ic i c) \<noteq> negated
                  then k (s\<lparr>m_prev := Some c, m_rest := cs\<rparr>) else None)"
| "rx_match (Seq a b) U ic k s = rx_match a U ic (rx_match b U ic k) s"
| "rx_match (Alt a b) U ic k s =
     (case rx_match a U ic k s of Some r \<Rightarrow> Some r | None \<Rightarrow> rx_match b U ic k s)"
| "rx_match (Rep lo hi r) U ic k s =
     rep (rx_match r U ic) lo (case hi of Some h \<Rightarrow> h | None \<Rightarrow> length (m_rest s)) k s"
| "rx_match (Group g r) U ic k s =
     rx_match r U ic
       (\<lambda>s'. k (s'\<lparr>m_caps := (g, take (length (m_rest s) - length (m_rest s')) (m_rest s)) # m_caps s'\<rparr>)) s"
| "rx_match WordBoundary U ic k s =
     (if is_word_opt U (m_prev s) \<noteq> is_word_opt U (case m_rest s of [] \<Rightarrow> None | c # cs \<Rightarrow> Some c)
      then k s else None)"

text \<open>
  \<^verbatim>\<open>re.search\<close> tries every start position from the left. \<^verbatim>\<open>re.findall\<close>
  continues after the end of each match and returns, per match, the tuple of its groups,
  or the whole match when the pattern has no group; a group that did not take part is the
  empty string. (After an empty match the search moves on by one character; no pattern of
  the source matches the empty string.)
\<close>

record rmatch =
  group0 :: pystr
  groups :: "(nat \<times> pystr) list"

definition match_at :: "rx \<Rightarrow> unicodedata \<Rightarrow> bool \<Rightarrow> nat option \<Rightarrow> pystr \<Rightarrow> rmatch option" where
  "match_at r U ic prev rest =
     (case rx_match r U ic Some \<lparr>m_prev = prev, m_rest = rest, m_caps = []\<rparr> of
        None \<Rightarrow> None
      | Some s \<Rightarrow> Some \<lparr>group0 = take (length rest - length (m_rest s)) rest, groups = m_caps s\<rparr>)"

fun search_from :: "rx \<Rightarrow> unicodedata \<Rightarrow> bool \<Rightarrow> nat option \<Rightarrow> pystr \<Rightarrow> rmatch option" where
  "search_from r U ic prev [] = match_at r U ic prev []"
| "search_from r U ic prev (c # cs) =
     (case match_at r U ic prev (c # cs) of
        Some mt \<Rightarrow> Some mt
      | None \<Rightarrow> search_from r U ic (Some c) cs)"

definition re_search :: "rx \<Rightarrow> unicodedata \<Rightarrow> bool \<Rightarrow> pystr \<Rightarrow> rmatch option" where
  "re_search r U ic s = search_from r U ic None s"

fun findall_from :: "rx \<Rightarrow> unicodedata \<Rightarrow> bool \<Rightarrow> nat \<Rightarrow> nat option \<Rightarrow> pystr \<Rightarrow> rmatch list" where
  "findall_from r U ic skip prev [] =
     (if skip = 0 then (case match_at r U ic prev [] of None \<Rightarrow> [] | Some mt \<Rightarrow> [mt]) else [])"
| "findall_from r U ic skip prev (c # cs) =
     (if skip > 0 then findall_from r U ic (skip - 1) (Some c) cs
      else (case match_at r U ic prev (c # cs) of
              None \<Rightarrow> findall_from r U ic 0 (Some c) cs
            | Some mt \<Rightarrow> mt # findall_from r U ic (length (group0 mt) - 1) (Some c) cs))"

definition match_group :: "rmatch \<Rightarrow> nat \<Rightarrow> pystr" where
  "match_group mt g = (case map_of (groups mt) g of None \<Rightarrow> [] | Some t \<Rightarrow> t)"

definition re_findall :: "rx \<Rightarrow> nat \<Rightarrow> unicodedata \<Rightarrow> bool \<Rightarrow> pystr \<Rightarrow> pystr list list" where
  "re_findall r ngroups U ic s =
     map (\<lambda>mt. if ngroups = 0 then [group0 mt] else map (match_group mt) [1..<ngroups + 1])
       (findall_from r U ic 0 None s)"

section \<open>The transcript data extractor\<close>

subsection \<open>Text cleaning\<close>

text \<open>
  \<^verbatim>\<open>TextCleaner.clean_text\<close>, lines 109 to 134. \<^verbatim>\<open>s.replace(old, new)\<close>
  replaces the occurrences of \<open>old\<close> from the left, without overlap; the counter says
  how many characters of a replaced occurrence are still to be skipped. The dictionary of
  replacements is applied in its insertion order.
\<close>

fun replace_from :: "pystr \<Rightarrow> pystr \<Rightarrow> nat \<Rightarrow> pystr \<Rightarrow> pystr" where
  "replace_from old new skip [] = []"
| "replace_from old new skip (c # cs) =
     (if skip > 0 then replace_from old new (skip - 1) cs
      else if starts_with old (c # cs) then new @ replace_from old new (length old - 1) cs
      else c # replace_from old new 0 cs)"

definition replace :: "pystr \<Rightarrow> pystr \<Rightarrow> pystr \<Rightarrow> pystr" where
  "replace old new s = replace_from old new 0 s"

definition replacements :: "(pystr \<times> pystr) list" where
  "replacements =
     [(lit ''rn'', lit ''m''), (lit ''cl'', lit ''d''), (lit ''0'', lit ''O''),
      (lit ''1'', lit ''I''), (lit ''vv'', lit ''w''), (lit ''ii'', lit ''n'')]"

definition clean_text :: "unicodedata \<Rightarrow> pystr \<Rightarrow> pystr" where
  "clean_text U text =
     (if text = [] then []
      else
       (let t1 = normalize_NFD U text;
            t2 = filter (\<lambda>c. \<not> category_Mn U c) t1;
            t3 = foldl (\<lambda>t (old, new). replace old new t) t2 replacements;
            t4 = collapse_whitespace t3
        in strip t4))"

subsection \<open>Units\<close>

text \<open>
  The patterns of \<^verbatim>\<open>_extract_units\<close>, lines 389 to 414 and 464 to 467, and of
  \<^verbatim>\<open>TextCleaner.extract_course_code\<close>, line 140, each under its source text
  (\<^verbatim>\<open>\u2013\<close> stands for the en dash, U+2013).
\<close>

text \<open>\<^verbatim>\<open>([A-Z]{2,4}\s+\d{3,4})\s+([A-Z][A-Z\s\.\&]{8,60})\s+\d+\s+\d+\s+\d+\s+([A-F][+-]?|[DIXZ])\s+(\d+)\<close>\<close>

definition unit_pattern_1 :: rx where
  "unit_pattern_1 =
     seqs [Group 1 (seqs [Rep 2 (Some 4) rx_upper, rx_spaces, Rep 3 (Some 4) rx_digit]),
           rx_spaces,
           Group 2 (seqs [rx_upper, Rep 8 (Some 60) (Class False ([rng CHR ''A'' CHR ''Z'', CSpace] @ chars ''.&''))]),
           rx_spaces, rx_digits, rx_spaces, rx_digits, rx_spaces, rx_digits, rx_spaces,
           Group 3 (alts [rx_letter_grade, Class False (chars ''DIXZ'')]), rx_spaces,
           Group 4 rx_digits]"

text \<open>\<^verbatim>\<open>([A-Z]{2,4}\s+\d{3,4})\s+([A-Z][A-Z\s\.\&/]{5,50})\s+(?:\d+\s+){2,3}([A-F][+-]?|[DIXZ])\s+(\d+)\<close>\<close>

definition unit_pattern_2 :: rx where
  "unit_pattern_2 =
     seqs [Group 1 (seqs [Rep 2 (Some 4) rx_upper, rx_spaces, Rep 3 (Some 4) rx_digit]),
           rx_spaces,
           Group 2 (seqs [rx_upper, Rep 5 (Some 50) (Class False ([rng CHR ''A'' CHR ''Z'', CSpace] @ chars ''.&/''))]),
           rx_spaces, Rep 2 (Some 3) (seqs [rx_digits, rx_spaces]),
           Group 3 (alts [rx_letter_grade, Class False (chars ''DIXZ'')]), rx_spaces,
           Group 4 rx_digits]"

text \<open>\<^verbatim>\<open>([A-Z]{2,4}\s*\d{3,4}[A-Z]?)\s*[\u2013-]\s*([^\u2013-]+)\s*[\u2013-]\s*([A-F][+-]?|[IXZ]|PASS|FAIL)\<close>\<close>

definition unit_pattern_3 :: rx where
  "unit_pattern_3 =
     seqs [Group 1 (seqs [Rep 2 (Some 4) rx_upper, rx_opt_spaces, Rep 3 (Some 4) rx_digit, Rep 0 (Some 1) rx_upper]),
           rx_opt_spaces, Class False ([CChar 8211] @ chars ''-''), rx_opt_spaces,
           Group 2 (Rep 1 None (Class True ([CChar 8211] @ chars ''-''))), rx_opt_spaces,
           Class False ([CChar 8211] @ chars ''-''), rx_opt_spaces,
           Group 3 (alts [rx_letter_grade, Class False (chars ''IXZ''), word ''PASS'', word ''FAIL''])]"

text \<open>\<^verbatim>\<open>([A-Z]{2,4}\d{3,4})\s*\|\s*([^|]+)\s*\|\s*(\d+)\s*\|\s*([A-F][+-]?|[IXZ])\<close>\<close>

definition unit_pattern_4 :: rx where
  "unit_pattern_4 =
     seqs [Group 1 (seqs [Rep 2 (Some 4) rx_upper, Rep 3 (Some 4) rx_digit]), rx_opt_spaces,
           word ''|'', rx_opt_spaces, Group 2 (Rep 1 None (Class True (chars ''|''))),
           rx_opt_spaces, word ''|'', rx_opt_spaces, Group 3 rx_digits, rx_opt_spaces,
           word ''|'', rx_opt_spaces,
           Group 4 (alts [rx_letter_grade, Class False (chars ''IXZ'')])]"

text \<open>\<^verbatim>\<open>([A-Z]{2,4}\s*\d{3,4})\s+([A-Za-z\s]{10,50})\s+([A-F][+-]?|[IXZ])\<close>\<close>

definition unit_pattern_5 :: rx where
  "unit_pattern_5 =
     seqs [Group 1 (seqs [Rep 2 (Some 4) rx_upper, rx_opt_spaces, Rep 3 (Some 4) rx_digit]),
           rx_spaces,
           Group 2 (Rep 10 (Some 50) (Class False [rng CHR ''A'' CHR ''Z'', rng CHR ''a'' CHR ''z'', CSpace])),
           rx_spaces, Group 3 (alts [rx_letter_grade, Class False (chars ''IXZ'')])]"

text \<open>\<^verbatim>\<open>([A-Z]{2,4}\s*\d{3,4})\s+([^()]+)\s*\((\d+)\)\s*([A-F][+-]?|[IXZ])\<close>\<close>

definition unit_pattern_6 :: rx where
  "unit_pattern_6 =
     seqs [Group 1 (seqs [Rep 2 (Some 4) rx_upper, rx_opt_spaces, Rep 3 (Some 4) rx_digit]),
           rx_spaces, Group 2 (Rep 1 None (Class True (chars ''()''))), rx_opt_spaces,
           word ''('', Group 3 rx_digits, word '')'', rx_opt_spaces,
           Group 4 (alts [rx_letter_grade, Class False (chars ''IXZ'')])]"

text \<open>\<^verbatim>\<open>\b([A-Z]{2,4}\s*\d{3,4}[A-Z]?)\b\<close>\<close>

definition course_code_pattern :: rx where
  "course_code_pattern =
     seqs [WordBoundary,
           Group 1 (seqs [Rep 2 (Some 4) rx_upper, rx_opt_spaces, Rep 3 (Some 4) rx_digit, Rep 0 (Some 1) rx_upper]),
           WordBoundary]"

text \<open>\<^verbatim>\<open>\b[A-Z]{2,4}\d{3,4}\b\<close>\<close>

definition simple_course_pattern_1 :: rx where
  "simple_course_pattern_1 =
     seqs [WordBoundary, Rep 2 (Some 4) rx_upper, Rep 3 (Some 4) rx_digit, WordBoundary]"

text \<open>\<^verbatim>\<open>\b[A-Z]{3,4}\s+\d{3,4}\b\<close>\<close>

definition simple_course_pattern_2 :: rx where
  "simple_course_pattern_2 =
     seqs [WordBoundary, Rep 3 (Some 4) rx_upper, rx_spaces, Rep 3 (Some 4) rx_digit,
           WordBoundary]"

text \<open>\<^verbatim>\<open>\b([A-Z]{2,4})\s*(\d{3,4}[A-Z]?)\b\<close>\<close>

definition extract_course_code_pattern :: rx where
  "extract_course_code_pattern =
     seqs [WordBoundary, Group 1 (Rep 2 (Some 4) rx_upper), rx_opt_spaces,
           Group 2 (seqs [Rep 3 (Some 4) rx_digit, Rep 0 (Some 1) rx_upper]), WordBoundary]"

text \<open>
  \<^verbatim>\<open>TextCleaner.extract_course_code\<close>, lines 136 to 146, and
  \<^verbatim>\<open>TextCleaner.normalize_grade\<close>, lines 148 to 166.
\<close>

definition extract_course_code :: "unicodedata \<Rightarrow> pystr \<Rightarrow> pystr option" where
  "extract_course_code U text =
     (case re_search extract_course_code_pattern U False (upper U text) of
        Some mt \<Rightarrow> Some (match_group mt 1 @ match_group mt 2)
      | None \<Rightarrow> None)"

definition grade_map :: "(pystr \<times> pystr) list" where
  "grade_map =
     [(lit ''PASS'', lit ''P''), (lit ''FAIL'', lit ''F''), (lit ''INCOMPLETE'', lit ''I''),
      (lit ''WITHDRAWN'', lit ''W''), (lit ''CREDIT'', lit ''CR''), (lit ''NO CREDIT'', lit ''NC'')]"

definition normalize_grade :: "unicodedata \<Rightarrow> pystr \<Rightarrow> pystr" where
  "normalize_grade U g =
     (if g = [] then []
      else (let g' = strip (upper U g)
            in case map_of grade_map g' of Some v \<Rightarrow> v | None \<Rightarrow> g'))"

text \<open>
  \<^verbatim>\<open>_is_valid_grade\<close>, lines 611 to 617. \<open>letter_grade_form\<close> is
  \<^verbatim>\<open>re.match(r'^[A-F][+-]?$', grade)\<close>, where \<^verbatim>\<open>$\<close> also matches before a
  final newline. \<^verbatim>\<open>_determine_unit_status\<close>, lines 619 to 628.
\<close>

definition valid_grades :: "pystr list" where
  "valid_grades = map lit [''A'', ''B'', ''C'', ''D'', ''E'', ''F'', ''I'', ''X'', ''Z'', ''P'',
     ''PASS'', ''FAIL'', ''F*'', ''AU'', ''EX'', ''N/A'']"

fun letter_grade_form :: "pystr \<Rightarrow> bool" where
  "letter_grade_form [c] = (65 \<le> c \<and> c \<le> 70)"
| "letter_grade_form [c, d] = (65 \<le> c \<and> c \<le> 70 \<and> (d = 43 \<or> d = 45 \<or> d = 10))"
| "letter_grade_form [c, d, e] = (65 \<le> c \<and> c \<le> 70 \<and> (d = 43 \<or> d = 45) \<and> e = 10)"
| "letter_grade_form g = False"

definition is_valid_grade :: "pystr \<Rightarrow> bool" where
  "is_valid_grade g = (g \<in> set valid_grades \<or> letter_grade_form g)"

definition determine_unit_status :: "pystr \<Rightarrow> pystr" where
  "determine_unit_status g =
     (if g \<in> set (map lit [''I'', ''X'', ''Z'', ''F*'']) then lit ''incomplete''
      else if g \<in> set (map lit [''F'', ''FAIL'']) then lit ''failed''
      else if g \<in> set (map lit [''AU'', ''N/A'', ''EX'']) then lit ''exempt''
      else lit ''complete'')"

text \<open>
  \<^verbatim>\<open>_clean_title\<close>, lines 570 to 574. After the two substitutions the title holds
  ASCII letters, ASCII digits and spaces, on which \<^verbatim>\<open>str.title()\<close> capitalises
  every letter that does not follow a letter and lowercases the others.
\<close>

fun title_from :: "bool \<Rightarrow> pystr \<Rightarrow> pystr" where
  "title_from prev_cased [] = []"
| "title_from prev_cased (c # cs) =
     (if is_ascii_alpha c
      then (if prev_cased then ascii_lower c else ascii_upper c) # title_from True cs
      else c # title_from False cs)"

definition clean_title :: "pystr \<Rightarrow> pystr" where
  "clean_title t =
     (let t1 = map (\<lambda>c. if is_ascii_alpha c \<or> is_ascii_digit c \<or> is_space c then c else 32) t;
          t2 = collapse_whitespace t1
      in title_from False (strip t2))"

text \<open>
  \<^verbatim>\<open>_parse_unit_match\<close>, lines 489 to 523. A match with four groups is read as
  (code, title, credits, grade): the grade is taken from the fourth group.
  \<^verbatim>\<open>_is_valid_unit\<close>, lines 596 to 609.
\<close>

definition remove_spaces :: "pystr \<Rightarrow> pystr" where
  "remove_spaces s = filter (\<lambda>c. c \<noteq> 32) s"

definition parse_unit_match :: "unicodedata \<Rightarrow> pystr list \<Rightarrow> cleaned_unit option" where
  "parse_unit_match U mt =
     (let fields =
            (case mt of
               [g1, g2, g3] \<Rightarrow> Some (g1, g2, g3)
             | [g1, g2, g3, g4] \<Rightarrow> Some (g1, g2, g4)
             | _ \<Rightarrow> None)
      in case fields of
           None \<Rightarrow> None
         | Some (code_text, title_text, grade_text) \<Rightarrow>
            (let c = (case extract_course_code U code_text of
                        Some x \<Rightarrow> if x \<noteq> [] then x else upper U (remove_spaces code_text)
                      | None \<Rightarrow> upper U (remove_spaces code_text));
                 t = clean_title title_text;
                 g = normalize_grade U grade_text
             in if \<not> is_valid_grade g then None
                else Some \<lparr> code = c, title = t, grade = g, unit_units = 1,
                            status = determine_unit_status g, unit_confidence = 9 / 10 \<rparr>))"

definition is_valid_unit :: "unicodedata \<Rightarrow> cleaned_unit \<Rightarrow> bool" where
  "is_valid_unit U unit =
     (if code unit = [] \<or> length (code unit) < 5 \<or> length (code unit) > 10 then False
      else if title unit = [] \<or> length (title unit) < 3 then False
      else if \<exists>invalid\<in>set (map lit [''PAGE'', ''YEAR'', ''SEMESTER'', ''GRADE'']).
                contains invalid (upper U (code unit)) then False
      else True)"

text \<open>
  \<^verbatim>\<open>_extract_units\<close>, lines 382 to 487. The state of the loop is the list
  \<^verbatim>\<open>units\<close> and the set \<^verbatim>\<open>found_courses\<close>. \<open>add_parsed_unit\<close> is the body of
  the loop over the matches of one pattern (lines 431 to 437), \<open>add_course_code\<close> the
  body of the fallback loop (lines 444 to 457), \<open>process_line\<close> the body of the loop over
  the lines, and \<open>add_simple_code\<close> the body of the last loop (lines 472 to 484).
\<close>

fun split_char_from :: "nat \<Rightarrow> pystr \<Rightarrow> pystr \<Rightarrow> pystr list" where
  "split_char_from sep cur [] = [cur]"
| "split_char_from sep cur (c # cs) =
     (if c = sep then cur # split_char_from sep [] cs else split_char_from sep (cur @ [c]) cs)"

definition split_lines :: "pystr \<Rightarrow> pystr list" where
  "split_lines s = split_char_from 10 [] s"

definition unit_patterns :: "(rx \<times> nat) list" where
  "unit_patterns = [(unit_pattern_1, 4), (unit_pattern_2, 4), (unit_pattern_3, 3),
     (unit_pattern_4, 4), (unit_pattern_5, 3), (unit_pattern_6, 4)]"

definition skip_words :: "pystr list" where
  "skip_words = map lit [''UNIT CODE'', ''UNIT DESCRIPTION'', ''GRADE CREDIT'', ''PAGE'',
     ''PROGRESSIVE'', ''SIGNATURE'', ''ACADEMIC REGISTRAR'', ''KEY:'', ''MEAN'', ''BALANCE'']"

type_synonym units_state = "cleaned_unit list \<times> pystr set"

definition add_parsed_unit :: "unicodedata \<Rightarrow> units_state \<Rightarrow> pystr list \<Rightarrow> units_state" where
  "add_parsed_unit U st mt =
     (case parse_unit_match U mt of
        None \<Rightarrow> st
      | Some unit \<Rightarrow>
          if is_valid_unit U unit
          then (fst st @ [unit], insert (upper U (remove_spaces (code unit))) (snd st))
          else st)"

definition apply_pattern :: "unicodedata \<Rightarrow> pystr \<Rightarrow> units_state \<Rightarrow> rx \<times> nat \<Rightarrow> units_state" where
  "apply_pattern U line st pat =
     foldl (add_parsed_unit U) st (re_findall (fst pat) (snd pat) U True line)"

definition fallback_unit :: "pystr \<Rightarrow> rat \<Rightarrow> cleaned_unit" where
  "fallback_unit c conf =
     \<lparr> code = c, title = lit ''Course'', grade = lit ''A'', unit_units = 1,
       status = lit ''complete'', unit_confidence = conf \<rparr>"

definition add_course_code :: "unicodedata \<Rightarrow> units_state \<Rightarrow> pystr list \<Rightarrow> units_state" where
  "add_course_code U st mt =
     (let course_code = concat mt;
          normalized_code = upper U (remove_spaces course_code)
      in if normalized_code \<notin> snd st \<and> length normalized_code \<ge> 5
         then (fst st @ [fallback_unit course_code (5 / 10)], insert normalized_code (snd st))
         else st)"

definition process_line :: "unicodedata \<Rightarrow> units_state \<Rightarrow> pystr \<Rightarrow> units_state" where
  "process_line U st raw_line =
     (let line = strip raw_line
      in if length line < 5 then st
         else if \<exists>skip_word\<in>set skip_words. contains skip_word (upper U line) then st
         else
          (let st1 = foldl (apply_pattern U line) st unit_patterns
           in if \<not> (\<exists>pat\<in>set unit_patterns. re_search (fst pat) U True line \<noteq> None)
              then foldl (add_course_code U) st1 (re_findall course_code_pattern 1 U False line)
              else st1))"

definition add_simple_code :: "unicodedata \<Rightarrow> units_state \<Rightarrow> pystr list \<Rightarrow> units_state" where
  "add_simple_code U st mt =
     (let m = concat mt;
          normalized_code = upper U (remove_spaces m)
      in if normalized_code \<notin> snd st
         then (fst st @ [fallback_unit m (3 / 10)], insert normalized_code (snd st))
         else st)"

definition extract_units :: "unicodedata \<Rightarrow> pystr \<Rightarrow> cleaned_unit list" where
  "extract_units U text =
     (let lines = split_lines text;
          st = foldl (process_line U) ([], {}) lines
      in if length (fst st) = 0
         then
          (let all_text = join (lit '' '') lines
           in fst (foldl (\<lambda>st pat. foldl (add_simple_code U) st (re_findall pat 0 U False all_text))
                    st [simple_course_pattern_1, simple_course_pattern_2]))
         else fst st)"

subsection \<open>Student ID and academic period\<close>

text \<open>The patterns of \<^verbatim>\<open>_extract_student_id\<close>, lines 287 to 295.\<close>

text \<open>\<^verbatim>\<open>(?:Student\s+No|Admission\s+Number):\s*(\d{6,8})\<close>\<close>

definition id_pattern_1 :: rx where
  "id_pattern_1 =
     seqs [alts [seqs [word ''Student'', rx_spaces, word ''No''], seqs [word ''Admission'', rx_spaces, word ''Number'']],
           word '':'', rx_opt_spaces, Group 1 (Rep 6 (Some 8) rx_digit)]"

text \<open>\<^verbatim>\<open>#(\d{6,8})\s+Page\<close>\<close>

definition id_pattern_2 :: rx where
  "id_pattern_2 =
     seqs [word ''#'', Group 1 (Rep 6 (Some 8) rx_digit), rx_spaces, word ''Page'']"

text \<open>\<^verbatim>\<open>(?:student\s+id|id\s+number|registration)[:\s]+([A-Z0-9]{6,15})\<close>\<close>

definition id_pattern_3 :: rx where
  "id_pattern_3 =
     seqs [alts [seqs [word ''student'', rx_spaces, word ''id''], seqs [word ''id'', rx_spaces, word ''number''], word ''registration''],
           Rep 1 None (Class False (chars '':'' @ [CSpace])),
           Group 1 (Rep 6 (Some 15) (Class False [rng CHR ''A'' CHR ''Z'', rng CHR ''0'' CHR ''9'']))]"

text \<open>\<^verbatim>\<open>(?:id)[:\s]+([A-Z0-9]{6,15})\<close>\<close>

definition id_pattern_4 :: rx where
  "id_pattern_4 =
     seqs [word ''id'', Rep 1 None (Class False (chars '':'' @ [CSpace])),
           Group 1 (Rep 6 (Some 15) (Class False [rng CHR ''A'' CHR ''Z'', rng CHR ''0'' CHR ''9'']))]"

text \<open>\<^verbatim>\<open>\b([A-Z]{2,3}\d{6,10})\b\<close>\<close>

definition id_pattern_5 :: rx where
  "id_pattern_5 =
     seqs [WordBoundary, Group 1 (seqs [Rep 2 (Some 3) rx_upper, Rep 6 (Some 10) rx_digit]),
           WordBoundary]"

text \<open>\<^verbatim>\<open>\b(\d{6,8})\b\<close>\<close>

definition id_pattern_6 :: rx where
  "id_pattern_6 =
     seqs [WordBoundary, Group 1 (Rep 6 (Some 8) rx_digit), WordBoundary]"

text \<open>\<^verbatim>\<open>_extract_student_id\<close>, lines 285 to 304: the first pattern that matches.\<close>

definition extract_student_id :: "unicodedata \<Rightarrow> pystr \<Rightarrow> pystr" where
  "extract_student_id U text =
     (case List.map_filter (\<lambda>pat. re_search pat U True text)
             [id_pattern_1, id_pattern_2, id_pattern_3, id_pattern_4, id_pattern_5, id_pattern_6] of
        [] \<Rightarrow> []
      | mt # _ \<Rightarrow> upper U (match_group mt 1))"

text \<open>The patterns of \<^verbatim>\<open>_extract_academic_period\<close>, lines 334 to 365.\<close>

text \<open>\<^verbatim>\<open>Stage:\s*Y(\d+)S\d+\<close>\<close>

definition year_pattern_1 :: rx where
  "year_pattern_1 =
     seqs [word ''Stage:'', rx_opt_spaces, word ''Y'', Group 1 rx_digits, word ''S'', rx_digits]"

text \<open>\<^verbatim>\<open>year[:\s]*(\d+)\<close>\<close>

definition year_pattern_2 :: rx where
  "year_pattern_2 =
     seqs [word ''year'', Rep 0 None (Class False (chars '':'' @ [CSpace])), Group 1 rx_digits]"

text \<open>\<^verbatim>\<open>(?:level|class)[:\s]*(\d+)\<close>\<close>

definition year_pattern_3 :: rx where
  "year_pattern_3 =
     seqs [alts [word ''level'', word ''class''],
           Rep 0 None (Class False (chars '':'' @ [CSpace])), Group 1 rx_digits]"

text \<open>\<^verbatim>\<open>(\d+)(?:st|nd|rd|th)\s+year\<close>\<close>

definition year_pattern_4 :: rx where
  "year_pattern_4 =
     seqs [Group 1 rx_digits, alts [word ''st'', word ''nd'', word ''rd'', word ''th''],
           rx_spaces, word ''year'']"

text \<open>\<^verbatim>\<open>Stage:\s*Y\d+S(\d+)\<close>\<close>

definition sem_pattern_1 :: rx where
  "sem_pattern_1 =
     seqs [word ''Stage:'', rx_opt_spaces, word ''Y'', rx_digits, word ''S'', Group 1 rx_digits]"

text \<open>\<^verbatim>\<open>semester[:\s]*(\d+)\<close>\<close>

definition sem_pattern_2 :: rx where
  "sem_pattern_2 =
     seqs [word ''semester'', Rep 0 None (Class False (chars '':'' @ [CSpace])),
           Group 1 rx_digits]"

text \<open>\<^verbatim>\<open>sem[:\s]*(\d+)\<close>\<close>

definition sem_pattern_3 :: rx where
  "sem_pattern_3 =
     seqs [word ''sem'', Rep 0 None (Class False (chars '':'' @ [CSpace])), Group 1 rx_digits]"

text \<open>\<^verbatim>\<open>term[:\s]*(\d+)\<close>\<close>

definition sem_pattern_4 :: rx where
  "sem_pattern_4 =
     seqs [word ''term'', Rep 0 None (Class False (chars '':'' @ [CSpace])), Group 1 rx_digits]"

text \<open>\<^verbatim>\<open>(JAN-APR|SEPT-DEC|MAY-AUG)(\d{2})\<close>\<close>

definition semester_entry_pattern :: rx where
  "semester_entry_pattern =
     seqs [Group 1 (alts [word ''JAN-APR'', word ''SEPT-DEC'', word ''MAY-AUG'']),
           Group 2 (Rep 2 (Some 2) rx_digit)]"


text \<open>
  \<^verbatim>\<open>_extract_academic_period\<close>, lines 328 to 380. \<open>int_of_digits\<close> is
  \<^verbatim>\<open>int\<close> on a string of decimal digits. \<^verbatim>\<open>sorted(..., reverse=True)\<close> is
  stable, as \<open>sort_key\<close> on the negated key is.
\<close>

definition int_of_digits :: "unicodedata \<Rightarrow> pystr \<Rightarrow> int" where
  "int_of_digits U s = int (foldl (\<lambda>acc c. 10 * acc + decimal_value U c) 0 s)"

definition update_year :: "unicodedata \<Rightarrow> pystr \<Rightarrow> int \<Rightarrow> rx \<Rightarrow> int" where
  "update_year U text y pat =
     (case re_search pat U True text of
        None \<Rightarrow> y
      | Some mt \<Rightarrow>
          (let year_num = int_of_digits U (match_group mt 1)
           in if 1 \<le> year_num \<and> year_num \<le> 6 then max y year_num else y))"

definition update_semester :: "unicodedata \<Rightarrow> pystr \<Rightarrow> int \<Rightarrow> rx \<Rightarrow> int" where
  "update_semester U text s pat =
     (case re_search pat U True text of
        None \<Rightarrow> s
      | Some mt \<Rightarrow>
          (let sem_num = int_of_digits U (match_group mt 1)
           in if 1 \<le> sem_num \<and> sem_num \<le> 2 then max s sem_num else s))"

definition extract_academic_period :: "unicodedata \<Rightarrow> pystr \<Rightarrow> int \<times> int" where
  "extract_academic_period U text =
     (let y = foldl (update_year U text) 0
                [year_pattern_1, year_pattern_2, year_pattern_3, year_pattern_4];
          s = foldl (update_semester U text) 2
                [sem_pattern_1, sem_pattern_2, sem_pattern_3, sem_pattern_4];
          semester_entries = re_findall semester_entry_pattern 2 U False text
      in if semester_entries \<noteq> []
         then
          (let sorted_entries = sort_key (\<lambda>x. - int_of_digits U (x ! 1)) semester_entries;
               latest_entry = hd sorted_entries;
               latest_year = 2000 + int_of_digits U (latest_entry ! 1);
               current_year = 2025;
               estimated_year = min 6 (max 1 (current_year - latest_year + 4))
           in (max y estimated_year, s))
         else (y, s))"

subsection \<open>The extraction\<close>

text \<open>
  \<^verbatim>\<open>extract_structured_data\<close>, lines 181 to 224. The result holds the fields that
  the properties below read. The student name, the programme, the GPA, the confidence
  scores and \<^verbatim>\<open>raw_data\<close> are computed from the same cleaned text by methods that
  raise no exception; they are not modelled.
\<close>

record extracted_transcript =
  ex_student_id :: pystr
  ex_year :: int
  ex_semester :: int
  ex_units :: "cleaned_unit list"
  ex_total_units :: int
  ex_completed_units :: int

definition extract_structured_data :: "unicodedata \<Rightarrow> pystr \<Rightarrow> extracted_transcript" where
  "extract_structured_data U text =
     (let cleaned_text = clean_text U text;
          sid = extract_student_id U cleaned_text;
          (y, s) = extract_academic_period U cleaned_text;
          us = extract_units U cleaned_text;
          countable_units = filter (\<lambda>unit. status unit \<noteq> lit ''exempt'') us
      in \<lparr> ex_student_id = sid, ex_year = y, ex_semester = s, ex_units = us,
           ex_total_units = int (length countable_units),
           ex_completed_units =
             int (length (filter (\<lambda>unit. status unit = lit ''complete'') countable_units)) \<rparr>)"

subsection \<open>Two transcript texts for evaluation\<close>

text \<open>
  The transcript row of the specification, and what \<^verbatim>\<open>clean_text\<close> makes of it;
  a text that lists the same course on two lines, and its cleaned form; the unit that the
  third pattern yields for each of the two lines.
\<close>

definition c1_row :: pystr where
  "c1_row = lit ''CMT 108 INTRO. TO WEB DEVELOPMENT 24 50 74 A 3''"

definition c1_cleaned :: pystr where
  "c1_cleaned = lit ''CMT IO8 INTRO. TO WEB DEVELOPMENT 24 5O 74 A 3''"

definition c3_text :: pystr where
  "c3_text = lit ''CIT 3255 - Data Structures - A\<newline>CIT 3255 - Data Structures - A''"

definition c3_cleaned :: pystr where
  "c3_cleaned = lit ''CIT 3255 - Data Structures - A CIT 3255 - Data Structures - A''"

definition c3_unit :: cleaned_unit where
  "c3_unit = \<lparr> code = lit ''CIT3255'', title = lit ''Data Structures'', grade = lit ''A'',
     unit_units = 1, status = lit ''complete'', unit_confidence = 9 / 10 \<rparr>"

section \<open>Properties of the eligibility evaluation\<close>

text \<open>
  Claim C4. For every transcript data and name-match result of a degree programme, the
  eligibility calculation reports 39 required units, \<open>has_required_units\<close> is
  \<open>completed_units \<ge> 39\<close>, \<open>meets_year_requirement\<close> is
  \<open>(year = 3 \<and> semester \<ge> 2) \<or> year > 3\<close>, and the overall verdict is the
  conjunction of the name match, the unit requirement, \<open>no_incompletes\<close> and the year
  requirement. With 45 completed units in year 4, semester 2, both requirements hold;
  with 30 completed units the unit requirement and the verdict are false.
\<close>

theorem C4_degree_eligibility:
  "required_units (eligibility_for True td nm) = 39 \<and>
   has_required_units (eligibility_for True td nm) = (completed_units td \<ge> 39) \<and>
   meets_year_requirement (eligibility_for True td nm) =
     ((year td = 3 \<and> semester td \<ge> 2) \<or> year td > 3) \<and>
   name_matched (eligibility_for True td nm) = is_match nm \<and>
   overall (eligibility_for True td nm) =
     (name_matched (eligibility_for True td nm) \<and>
      has_required_units (eligibility_for True td nm) \<and>
      no_incompletes (eligibility_for True td nm) \<and>
      meets_year_requirement (eligibility_for True td nm)) \<and>
   has_required_units (eligibility_for True (example_transcript 45) nm) \<and>
   meets_year_requirement (eligibility_for True (example_transcript 45) nm) \<and>
   \<not> has_required_units (eligibility_for True (example_transcript 30) nm) \<and>
   \<not> overall (eligibility_for True (example_transcript 30) nm)"
  by (simp add: eligibility_for_def calculate_eligibility_def select_required_units_def
      example_transcript_def Let_def)

theorem C4_degree_eligibility_witness:
  "overall (eligibility_for True (example_transcript 45) example_match) \<and>
   required_units (eligibility_for True (example_transcript 45) example_match) = 39 \<and>
   \<not> overall (eligibility_for True (example_transcript 30) example_match)"
  using C4_degree_eligibility [of "example_transcript 45" example_match]
  by (simp add: example_transcript_def example_match_def eligibility_for_def
      calculate_eligibility_def select_required_units_def Let_def)

section \<open>Properties of the document analysis and the orchestrator\<close>

text \<open>
  Claim C8. When the bytes cannot be opened as a PDF, the document analyzer does not
  raise: it returns the pessimistic analysis, with \<open>is_scanned\<close> true, confidence 0.5 and
  the OCR strategy recommended, and the orchestrator goes on with optical extraction.
  (That the analyzer does not raise is in the model itself: every exception of its body
  ends in the \<^verbatim>\<open>except\<close> branch, whose result \<open>analyze_document\<close> returns.)
\<close>

theorem C8_unreadable_pdf_pessimistic_analysis:
  "fitz_open lib pdf_bytes = None \<Longrightarrow>
   analyze_document lib pdf_bytes = analysis_failed \<and>
   is_scanned (analyze_document lib pdf_bytes) \<and>
   \<not> is_digital (analyze_document lib pdf_bytes) \<and>
   analysis_confidence (analyze_document lib pdf_bytes) = 1 / 2 \<and>
   recommended_method (analyze_document lib pdf_bytes) = lit ''advanced_ocr'' \<and>
   process_document_comprehensive lib pdf_bytes = extract_with_advanced_ocr lib pdf_bytes"
  by (simp add: analyze_document_def analysis_failed_def process_document_comprehensive_def
      lit_def)

theorem C8_unreadable_pdf_witness:
  "fitz_open unreadable_backend [37, 80, 68, 70] = None \<and>
   is_scanned (analyze_document unreadable_backend [37, 80, 68, 70]) \<and>
   analysis_confidence (analyze_document unreadable_backend [37, 80, 68, 70]) = 1 / 2"
  using C8_unreadable_pdf_pessimistic_analysis [of unreadable_backend "[37, 80, 68, 70]"]
  by (simp add: unreadable_backend_def analysis_failed_def)

text \<open>
  Claim C5, evaluated on the scanned page. No digital method qualifies (PyMuPDF and
  pdfplumber succeed with confidence 0, pdfminer does not succeed). The result has the
  method name \<open>combined\<close> and confidence 0.1, but its text is the plain PyMuPDF text of
  the document, a single newline, and not the texts of the attempted methods joined.
\<close>

theorem C5_fallback_text_is_not_the_combined_text:
  "primary_method (extract_digital_text_enhanced scanned_backend pdf_bytes) = lit ''combined'' \<and>
   result_confidence (extract_digital_text_enhanced scanned_backend pdf_bytes) = 1 / 10 \<and>
   text_of (extract_digital_text_enhanced scanned_backend pdf_bytes) = lit ''\<newline>'' \<and>
   spec_combined_text scanned_backend pdf_bytes =
     lit ''\<newline>--- Page 1 ---\<newline>\<newline>\<newline>--- Page 1 ---\<newline>'' \<and>
   text_of (extract_digital_text_enhanced scanned_backend pdf_bytes) \<noteq>
     spec_combined_text scanned_backend pdf_bytes"
  by (simp add: extract_digital_text_enhanced_def scanned_backend_def scanned_page_def
      extract_with_pymupdf_enhanced_def extract_with_pdfplumber_enhanced_def
      extract_with_pdfminer_enhanced_def pymupdf_enhanced_text_def pdfplumber_enhanced_text_def
      pdfminer_enhanced_text_def pdfplumber_page_text_def page_header_def get_method_text_def
      fitz_plain_text_def get_page_count_def spec_combined_text_def lit_def Let_def)

text \<open>
  The same on bytes that nothing opens: the fallback returns the empty string, so the
  downstream extraction receives no text.
\<close>

lemma fallback_text_may_be_empty:
  "text_of (extract_digital_text_enhanced unreadable_backend pdf_bytes) = [] \<and>
   result_confidence (extract_digital_text_enhanced unreadable_backend pdf_bytes) = 1 / 10"
  by (simp add: extract_digital_text_enhanced_def unreadable_backend_def
      extract_with_pymupdf_enhanced_def extract_with_pdfplumber_enhanced_def
      extract_with_pdfminer_enhanced_def pymupdf_enhanced_text_def pdfplumber_enhanced_text_def
      get_method_text_def fitz_plain_text_def lit_def Let_def)

section \<open>Properties of name matching\<close>

subsection \<open>Splitting, collapsing and stripping a string of tokens joined by spaces\<close>

lemma split_from_nospace:
  "\<forall>c\<in>set t. \<not> is_space c \<Longrightarrow> split_from cur (t @ s) = split_from (cur @ t) s"
  by (induction t arbitrary: cur) auto

lemma split_from_tokens:
  "\<forall>c\<in>set cur. \<not> is_space c \<Longrightarrow> \<forall>t\<in>set (split_from cur s). is_token t"
proof (induction s arbitrary: cur)
  case Nil
  then show ?case by (simp add: is_token_def)
next
  case (Cons a s)
  show ?case using Cons(1) [of "[]"] Cons(1) [of "cur @ [a]"] Cons(2)
    by (auto simp: is_token_def)
qed

lemma split_from_chars:
  "\<forall>t\<in>set (split_from cur s). set t \<subseteq> set cur \<union> set s"
proof (induction s arbitrary: cur)
  case Nil
  then show ?case by simp
next
  case (Cons a s)
  show ?case using Cons [of "[]"] Cons [of "cur @ [a]"] by auto
qed

lemma split_join_tokens:
  "\<forall>t\<in>set ts. is_token t \<Longrightarrow> split_from [] (join [32] ts) = ts"
proof (induction "[32::nat]" ts rule: join.induct)
  case 1
  then show ?case by simp
next
  case (2 p)
  then have "split_from [] (p @ []) = split_from ([] @ p) []"
    by (intro split_from_nospace) (simp add: is_token_def)
  with 2 show ?case by (simp add: is_token_def)
next
  case (3 p q ps)
  have p: "p \<noteq> []" "\<forall>c\<in>set p. \<not> is_space c" using 3 by (simp_all add: is_token_def)
  have "split_from [] (p @ ([32] @ join [32] (q # ps))) = split_from ([] @ p) ([32] @ join [32] (q # ps))"
    using p by (intro split_from_nospace) simp
  then show ?case using 3 p by (simp add: is_space_def)
qed

lemma collapse_from_nospace:
  "\<forall>c\<in>set t. \<not> is_space c \<Longrightarrow> t \<noteq> [] \<Longrightarrow> collapse_from w (t @ s) = t @ collapse_from False s"
  by (induction t arbitrary: w) (auto, metis append_Nil)

lemma collapse_join_tokens:
  "\<forall>t\<in>set ts. is_token t \<Longrightarrow> ts \<noteq> [] \<Longrightarrow> collapse_from w (join [32] ts) = join [32] ts"
proof (induction "[32::nat]" ts arbitrary: w rule: join.induct)
  case 1
  then show ?case by simp
next
  case (2 p)
  then have "collapse_from w (p @ []) = p @ collapse_from False []"
    by (intro collapse_from_nospace) (simp_all add: is_token_def)
  then show ?case by simp
next
  case (3 p q ps)
  have p: "p \<noteq> []" "\<forall>c\<in>set p. \<not> is_space c" using 3 by (simp_all add: is_token_def)
  have "collapse_from w (p @ ([32] @ join [32] (q # ps))) = p @ collapse_from False ([32] @ join [32] (q # ps))"
    using p by (intro collapse_from_nospace) simp_all
  moreover have "collapse_from True (join [32] (q # ps)) = join [32] (q # ps)"
    using 3 by simp
  ultimately show ?case by (simp add: is_space_def)
qed

lemma join_tokens_hd:
  "\<forall>t\<in>set ts. is_token t \<Longrightarrow> ts \<noteq> [] \<Longrightarrow> join [32] ts \<noteq> [] \<and> \<not> is_space (hd (join [32] ts)) \<and> \<not> is_space (last (join [32] ts))"
  by (induction "[32::nat]" ts rule: join.induct) (auto simp: is_token_def)

lemma dropWhile_hd: "s \<noteq> [] \<Longrightarrow> \<not> P (hd s) \<Longrightarrow> dropWhile P s = s"
  by (cases s) auto

lemma strip_id: "s \<noteq> [] \<Longrightarrow> \<not> is_space (hd s) \<Longrightarrow> \<not> is_space (last s) \<Longrightarrow> strip s = s"
  by (simp add: strip_def dropWhile_hd hd_rev)


lemma lower_not_space: "is_ascii_lower c \<Longrightarrow> \<not> is_space c"
  by (auto simp: is_ascii_lower_def is_space_def)

lemma lower_token_is_token: "lower_token t \<Longrightarrow> is_token t"
  by (auto simp: lower_token_def is_token_def lower_not_space)

lemma set_join: "set (join sep ts) \<subseteq> set sep \<union> \<Union> (set ` set ts)"
  by (induction sep ts rule: join.induct) auto

lemma set_collapse_from: "set (collapse_from w s) \<subseteq> insert 32 (set s)"
  by (induction s arbitrary: w) auto

lemma set_strip: "set (strip s) \<subseteq> set s"
  by (auto simp: strip_def dest!: set_dropWhileD)

lemma name_tokens_lower:
  "\<forall>t\<in>set (name_tokens U n). lower_token t"
proof
  fix t assume t: "t \<in> set (name_tokens U n)"
  define n3 where "n3 = filter (\<lambda>c. is_ascii_alpha c \<or> is_space c)
     (filter (\<lambda>c. \<not> category_Mn U c) (normalize_NFD U n))"
  define n5 where "n5 = map ascii_lower (strip (collapse_whitespace n3))"
  have t5: "t \<in> set (split_from [] n5)"
    using t by (simp add: name_tokens_def n5_def n3_def split_ws_def Let_def)
  have tok: "is_token t" using split_from_tokens [of "[]" n5] t5 by simp
  have sub: "set t \<subseteq> set n5" using split_from_chars [of "[]" n5] t5 by auto
  have "\<forall>c\<in>set n5. is_ascii_lower c \<or> is_space c"
  proof
    fix c assume "c \<in> set n5"
    then obtain d where d: "d \<in> set (strip (collapse_whitespace n3))" "c = ascii_lower d"
      by (auto simp: n5_def)
    then have "d \<in> insert 32 (set n3)"
      using set_strip set_collapse_from unfolding collapse_whitespace_def by blast
    then have "is_ascii_alpha d \<or> is_space d" by (auto simp: n3_def is_space_def)
    then show "is_ascii_lower c \<or> is_space c"
      using d(2) by (auto simp: ascii_lower_def is_ascii_alpha_def is_ascii_lower_def
          is_ascii_upper_def is_space_def)
  qed
  then show "lower_token t" using tok sub by (auto simp: lower_token_def is_token_def)
qed

lemma name_tokens_of_join:
  assumes nfd: "\<forall>s. (\<forall>c\<in>set s. c < 128) \<longrightarrow> normalize_NFD U s = s"
    and mn: "\<forall>c. c < 128 \<longrightarrow> \<not> category_Mn U c"
    and ts: "\<forall>t\<in>set ts. lower_token t" and ne: "ts \<noteq> []"
  shows "name_tokens U (join [32] ts) = ts"
proof -
  let ?r = "join [32] ts"
  have tok: "\<forall>t\<in>set ts. is_token t" using ts lower_token_is_token by blast
  have chars: "\<forall>c\<in>set ?r. is_ascii_lower c \<or> c = 32"
    using set_join [of "[32]" ts] ts by (auto simp: lower_token_def)
  then have ascii: "\<forall>c\<in>set ?r. c < 128" by (auto simp: is_ascii_lower_def)
  have 1: "normalize_NFD U ?r = ?r" using nfd ascii by blast
  have 2: "filter (\<lambda>c. \<not> category_Mn U c) ?r = ?r" using mn ascii by (simp add: filter_id_conv)
  have 3: "filter (\<lambda>c. is_ascii_alpha c \<or> is_space c) ?r = ?r"
    using chars by (auto simp: filter_id_conv is_ascii_alpha_def is_space_def)
  have 4: "collapse_whitespace ?r = ?r"
    unfolding collapse_whitespace_def using collapse_join_tokens [OF tok ne] .
  have 5: "strip ?r = ?r" using join_tokens_hd [OF tok ne] by (simp add: strip_id)
  have 6: "map ascii_lower ?r = ?r"
    using chars by (intro map_idI) (auto simp: ascii_lower_def is_ascii_upper_def is_ascii_lower_def)
  show ?thesis
    by (simp only: name_tokens_def Let_def 1 2 3 4 5 6 split_ws_def split_join_tokens [OF tok])
qed

lemmas eval_name = normalize_name_def name_tokens_def ascii_unicodedata_def lit_def Let_def
        collapse_whitespace_def strip_def split_ws_def is_space_def is_ascii_alpha_def
        is_ascii_upper_def is_ascii_lower_def ascii_lower_def

lemmas eval_ratio = ratio_def popular_def find_longest_match_def lcs_row_def

lemma normalized_tokens_long:
  "\<forall>t\<in>set (split_ws (normalize_name U n)). 1 < length t"
proof (cases "filter (\<lambda>part. length part > 1) (name_tokens U n) = [] \<or> n = []")
  case True
  then show ?thesis by (auto simp: normalize_name_def split_ws_def)
next
  case False
  define ts where "ts = sort (filter (\<lambda>part. length part > 1) (name_tokens U n))"
  have r: "normalize_name U n = join [32] ts"
    using False by (auto simp: normalize_name_def ts_def lit_def)
  have "\<forall>t\<in>set ts. is_token t"
    using name_tokens_lower [of U n] lower_token_is_token by (auto simp: ts_def)
  then have "split_ws (join [32] ts) = ts" unfolding split_ws_def by (rule split_join_tokens)
  then show ?thesis by (auto simp: r ts_def)
qed

subsection \<open>Idempotence of the normalization\<close>

text \<open>
  Claim C9. Name normalization is idempotent:
  \<open>normalize_name (normalize_name n) = normalize_name n\<close> for every name \<open>n\<close>. The
  two hypotheses are facts of the Unicode character database that the second application
  relies on: NFD leaves ASCII text unchanged, and no ASCII character is a nonspacing mark.
\<close>

theorem C9_normalize_name_idempotent:
  assumes nfd: "\<forall>s. (\<forall>c\<in>set s. c < 128) \<longrightarrow> normalize_NFD U s = s"
    and mn: "\<forall>c. c < 128 \<longrightarrow> \<not> category_Mn U c"
  shows "normalize_name U (normalize_name U n) = normalize_name U n"
proof (cases "normalize_name U n = []")
  case True
  then show ?thesis by (simp add: normalize_name_def)
next
  case False
  define ts where "ts = sort (filter (\<lambda>part. length part > 1) (name_tokens U n))"
  have r: "normalize_name U n = join [32] ts"
    using False by (auto simp: normalize_name_def ts_def lit_def split: if_splits)
  have ne: "ts \<noteq> []" using False r by auto
  have low: "\<forall>t\<in>set ts. lower_token t" using name_tokens_lower [of U n] by (auto simp: ts_def)
  have long: "filter (\<lambda>part. length part > 1) ts = ts" by (auto simp: ts_def filter_id_conv)
  have srt: "sort ts = ts" by (simp add: ts_def sort_key_id_if_sorted)
  have nt: "name_tokens U (join [32] ts) = ts" using name_tokens_of_join [OF nfd mn low ne] .
  have "normalize_name U (join [32] ts) =
        join [32] (sort (filter (\<lambda>part. length part > 1) (name_tokens U (join [32] ts))))"
    using False r by (simp add: normalize_name_def lit_def)
  also have "\<dots> = join [32] ts" by (simp only: nt long srt)
  finally show ?thesis by (simp only: r)
qed

text \<open>
  The witness of C9: the ASCII data satisfy both hypotheses, and the name normalizes to
  two sorted lowercase tokens, the initial dropped.
\<close>

theorem C9_normalize_name_idempotent_witness:
  "normalize_name ascii_unicodedata (normalize_name ascii_unicodedata (lit ''Ochieng, Easton M.''))
     = normalize_name ascii_unicodedata (lit ''Ochieng, Easton M.'') \<and>
   normalize_name ascii_unicodedata (lit ''Ochieng, Easton M.'') = lit ''easton ochieng''"
proof -
  have "normalize_name ascii_unicodedata (lit ''Ochieng, Easton M.'') = lit ''easton ochieng''"
    by (simp add: normalize_name_def name_tokens_def ascii_unicodedata_def lit_def Let_def
        collapse_whitespace_def strip_def split_ws_def is_space_def is_ascii_alpha_def
        is_ascii_upper_def is_ascii_lower_def ascii_lower_def)
  moreover have "normalize_name ascii_unicodedata (normalize_name ascii_unicodedata (lit ''Ochieng, Easton M.''))
     = normalize_name ascii_unicodedata (lit ''Ochieng, Easton M.'')"
    by (rule C9_normalize_name_idempotent) (simp_all add: ascii_unicodedata_def)
  ultimately show ?thesis by simp
qed

subsection \<open>Tokens of length at most 1\<close>

text \<open>
  Claim C10 fails as stated when one of the two names is the empty string: the names
  \<open>Q\<close> and the empty name differ only in a single-letter token and have the same
  normalized form, but line 65 returns similarity 0.0 for an empty name, so
  \<^verbatim>\<open>is_match\<close> is false. (The extractor returns the empty name whenever it finds
  no valid name in the transcript.)
\<close>

theorem C10_counterexample:
  "differ_only_in_short_tokens ascii_unicodedata (lit ''Q'') [] \<and>
   normalize_name ascii_unicodedata (lit ''Q'') = normalize_name ascii_unicodedata [] \<and>
   match_confidence (match_names ascii_unicodedata (lit ''Q'') []) = 0 \<and>
   \<not> is_match (match_names ascii_unicodedata (lit ''Q'') [])"
  by (simp add: differ_only_in_short_tokens_def match_names_def calculate_similarity_def eval_name)

text \<open>
  Claim C10, amended. \<^verbatim>\<open>normalize_name\<close> discards every token of length at most 1:
  every token of a normalized name is longer. So for every pair of non-empty names that
  differ only in single-letter tokens the normalized forms are equal,
  \<^verbatim>\<open>match_names\<close> returns similarity 1.0 and \<^verbatim>\<open>is_match\<close> is true.
\<close>

theorem C10_short_tokens_ignored:
  assumes "a \<noteq> []" and "b \<noteq> []" and "differ_only_in_short_tokens U a b"
  shows "(\<forall>t\<in>set (split_ws (normalize_name U a)). 1 < length t) \<and>
         normalize_name U a = normalize_name U b \<and>
         match_confidence (match_names U a b) = 1 \<and>
         is_match (match_names U a b)"
proof -
  have "normalize_name U a = normalize_name U b"
    using assms by (simp add: normalize_name_def differ_only_in_short_tokens_def)
  then show ?thesis
    using assms(1,2) normalized_tokens_long [of U a]
    by (simp add: match_names_def calculate_similarity_def Let_def)
qed

text \<open>The witness of C10: a middle initial.\<close>

theorem C10_short_tokens_ignored_witness:
  "lit ''John Q Doe'' \<noteq> [] \<and> lit ''John Doe'' \<noteq> [] \<and>
   differ_only_in_short_tokens ascii_unicodedata (lit ''John Q Doe'') (lit ''John Doe'') \<and>
   normalize_name ascii_unicodedata (lit ''John Q Doe'') = lit ''doe john'' \<and>
   normalize_name ascii_unicodedata (lit ''John Doe'') = lit ''doe john'' \<and>
   match_confidence (match_names ascii_unicodedata (lit ''John Q Doe'') (lit ''John Doe'')) = 1 \<and>
   is_match (match_names ascii_unicodedata (lit ''John Q Doe'') (lit ''John Doe''))"
proof -
  have d: "differ_only_in_short_tokens ascii_unicodedata (lit ''John Q Doe'') (lit ''John Doe'')"
    by (simp add: differ_only_in_short_tokens_def eval_name)
  have n: "normalize_name ascii_unicodedata (lit ''John Q Doe'') = lit ''doe john''"
    by (simp add: eval_name)
  have a: "lit ''John Q Doe'' \<noteq> []" and b: "lit ''John Doe'' \<noteq> []" by (simp_all add: lit_def)
  show ?thesis using C10_short_tokens_ignored [OF a b d] d n a b by simp
qed

subsection \<open>Symmetry of the match\<close>

text \<open>
  Claim C7 fails as stated: the ratio of \<^verbatim>\<open>SequenceMatcher\<close> depends on the order
  of its arguments. For the names Anna and Nana the normalized strings share the block
  \<open>an\<close> and then \<open>a\<close> in one order (ratio 0.75), and only the block \<open>na\<close> in the
  other (ratio 0.5), so the two calls disagree on \<^verbatim>\<open>is_match\<close>.
\<close>

theorem C7_counterexample:
  "is_match (match_names ascii_unicodedata (lit ''Anna'') (lit ''Nana'')) \<and>
   \<not> is_match (match_names ascii_unicodedata (lit ''Nana'') (lit ''Anna''))"
proof -
  have a: "normalize_name ascii_unicodedata (lit ''Anna'') = lit ''anna''"
    by (simp add: eval_name)
  have n: "normalize_name ascii_unicodedata (lit ''Nana'') = lit ''nana''"
    by (simp add: eval_name)
  have r1: "ratio (lit ''anna'') (lit ''nana'') = 3 / 4" by (simp add: eval_ratio lit_def Let_def)
  have r2: "ratio (lit ''nana'') (lit ''anna'') = 1 / 2" by (simp add: eval_ratio lit_def Let_def)
  have s1: "split_ws (lit ''anna'') = [lit ''anna'']" "split_ws (lit ''nana'') = [lit ''nana'']"
    by (simp_all add: split_ws_def lit_def is_space_def)
  have ne: "lit ''anna'' \<noteq> lit ''nana''" "lit ''Anna'' \<noteq> []" "lit ''Nana'' \<noteq> []"
    by (simp_all add: lit_def)
  show ?thesis
    using ne by (simp add: match_names_def calculate_similarity_def a n r1 r2 s1 Let_def)
qed

text \<open>
  Claim C7, amended. For every pair of names for which the ratio of the two normalized
  names is the same in both orders, \<^verbatim>\<open>match_names(a, b)\<close> and
  \<^verbatim>\<open>match_names(b, a)\<close> agree on \<^verbatim>\<open>is_match\<close> and on the confidence: every
  other ingredient of the similarity (equality of the normalized names, the subset test,
  the coverage of the common tokens) is symmetric.
\<close>

theorem C7_match_symmetric_when_ratio_is:
  assumes "ratio (normalize_name U a) (normalize_name U b) =
           ratio (normalize_name U b) (normalize_name U a)"
  shows "is_match (match_names U a b) = is_match (match_names U b a) \<and>
         match_confidence (match_names U a b) = match_confidence (match_names U b a)"
proof -
  have "calculate_similarity U a b = calculate_similarity U b a"
    using assms
    by (auto simp: calculate_similarity_def Let_def Int_commute max.commute)
  then show ?thesis by (simp add: match_names_def Let_def)
qed

text \<open>The witness of C7: a registered name and an extracted name without the middle name.\<close>

theorem C7_match_symmetric_when_ratio_is_witness:
  "ratio (normalize_name ascii_unicodedata (lit ''Easton Michura Ochieng''))
         (normalize_name ascii_unicodedata (lit ''OCHIENG Easton'')) =
   ratio (normalize_name ascii_unicodedata (lit ''OCHIENG Easton''))
         (normalize_name ascii_unicodedata (lit ''Easton Michura Ochieng'')) \<and>
   is_match (match_names ascii_unicodedata (lit ''Easton Michura Ochieng'') (lit ''OCHIENG Easton'')) \<and>
   is_match (match_names ascii_unicodedata (lit ''OCHIENG Easton'') (lit ''Easton Michura Ochieng''))"
proof -
  have a: "normalize_name ascii_unicodedata (lit ''Easton Michura Ochieng'') = lit ''easton michura ochieng''"
    by (simp add: eval_name)
  have b: "normalize_name ascii_unicodedata (lit ''OCHIENG Easton'') = lit ''easton ochieng''"
    by (simp add: eval_name)
  have r1: "ratio (lit ''easton michura ochieng'') (lit ''easton ochieng'') = 7 / 9"
    by (simp add: eval_ratio lit_def Let_def)
  have r2: "ratio (lit ''easton ochieng'') (lit ''easton michura ochieng'') = 7 / 9"
    by (simp add: eval_ratio lit_def Let_def)
  have s: "split_ws (lit ''easton michura ochieng'') = [lit ''easton'', lit ''michura'', lit ''ochieng'']"
    "split_ws (lit ''easton ochieng'') = [lit ''easton'', lit ''ochieng'']"
    by (simp_all add: split_ws_def lit_def is_space_def)
  have ne: "lit ''Easton Michura Ochieng'' \<noteq> []" "lit ''OCHIENG Easton'' \<noteq> []"
    "lit ''easton michura ochieng'' \<noteq> lit ''easton ochieng''" by (simp_all add: lit_def)
  have m: "is_match (match_names ascii_unicodedata (lit ''Easton Michura Ochieng'') (lit ''OCHIENG Easton''))"
    using ne by (simp add: match_names_def calculate_similarity_def a b r1 s Let_def)
  have sym: "ratio (normalize_name ascii_unicodedata (lit ''Easton Michura Ochieng''))
         (normalize_name ascii_unicodedata (lit ''OCHIENG Easton'')) =
   ratio (normalize_name ascii_unicodedata (lit ''OCHIENG Easton''))
         (normalize_name ascii_unicodedata (lit ''Easton Michura Ochieng''))"
    by (simp only: a b r1 r2)
  show ?thesis using C7_match_symmetric_when_ratio_is [OF sym] m sym by simp
qed

section \<open>Properties of the transcript data extractor\<close>

subsection \<open>Evaluating the matcher\<close>

text \<open>
  For evaluation by the simplifier the repetition is unfolded one iteration at a time,
  so that only the alternatives which the backtracking reaches are computed.
\<close>

lemma rep_unfold:
  "rep body lo hi k s =
     (if hi = 0 then (if lo = 0 then k s else None)
      else (case body (rep body (lo - 1) (hi - 1) k) s of
              Some r \<Rightarrow> Some r
            | None \<Rightarrow> if lo = 0 then k s else None))"
  by (cases hi) simp_all

lemmas eval_rx = rx_upper_def rx_digit_def rx_space_def rx_spaces_def rx_opt_spaces_def
  rx_digits_def rx_letter_grade_def word_def chars_def one_def rng_def
  case_variants_def fold_case_def is_word_opt_def re_search_def match_at_def
  re_findall_def match_group_def upt_conv_Cons is_space_def is_ascii_lower_def is_ascii_upper_def is_ascii_digit_def
  is_ascii_alpha_def ascii_lower_def ascii_upper_def ascii_unicodedata_def lit_def rep_unfold

lemmas period_patterns = year_pattern_1_def year_pattern_2_def year_pattern_3_def
  year_pattern_4_def sem_pattern_1_def sem_pattern_2_def sem_pattern_3_def sem_pattern_4_def
  semester_entry_pattern_def

lemmas eval_text = lit_def clean_text_def ascii_unicodedata_def replacements_def replace_def
  collapse_whitespace_def strip_def is_space_def Let_def

subsection \<open>The academic period\<close>









lemma period_value:
  "extract_academic_period ascii_unicodedata (lit ''SEPT-DEC24 JAN-APR25'') = (4, 2)"
  by (simp add: extract_academic_period_def update_year_def update_semester_def period_patterns
      int_of_digits_def eval_rx Let_def del: rep.simps)

subsection \<open>The transcript row of the specification\<close>

text \<open>
  The row is evaluated step by step: the cleaned text, then every pattern on the only
  line, then the loop.
\<close>

lemma c1_clean: "clean_text ascii_unicodedata c1_row = c1_cleaned"
  by (simp add: c1_row_def c1_cleaned_def eval_text)

lemma c1_p1: "re_findall unit_pattern_1 4 ascii_unicodedata True c1_cleaned = [] \<and>
  re_search unit_pattern_1 ascii_unicodedata True c1_cleaned = None"
  by (simp add: c1_cleaned_def unit_pattern_1_def eval_rx del: rep.simps)

lemma c1_p2: "re_findall unit_pattern_2 4 ascii_unicodedata True c1_cleaned = [] \<and>
  re_search unit_pattern_2 ascii_unicodedata True c1_cleaned = None"
  by (simp add: c1_cleaned_def unit_pattern_2_def eval_rx del: rep.simps)

lemma c1_p3: "re_findall unit_pattern_3 3 ascii_unicodedata True c1_cleaned = [] \<and>
  re_search unit_pattern_3 ascii_unicodedata True c1_cleaned = None"
  by (simp add: c1_cleaned_def unit_pattern_3_def eval_rx del: rep.simps)

lemma c1_p4: "re_findall unit_pattern_4 4 ascii_unicodedata True c1_cleaned = [] \<and>
  re_search unit_pattern_4 ascii_unicodedata True c1_cleaned = None"
  by (simp add: c1_cleaned_def unit_pattern_4_def eval_rx del: rep.simps)

lemma c1_p5: "re_findall unit_pattern_5 3 ascii_unicodedata True c1_cleaned = [] \<and>
  re_search unit_pattern_5 ascii_unicodedata True c1_cleaned = None"
  by (simp add: c1_cleaned_def unit_pattern_5_def eval_rx del: rep.simps)

lemma c1_p6: "re_findall unit_pattern_6 4 ascii_unicodedata True c1_cleaned = [] \<and>
  re_search unit_pattern_6 ascii_unicodedata True c1_cleaned = None"
  by (simp add: c1_cleaned_def unit_pattern_6_def eval_rx del: rep.simps)

lemma c1_codes: "re_findall course_code_pattern 1 ascii_unicodedata False c1_cleaned = [] \<and>
  re_findall simple_course_pattern_1 0 ascii_unicodedata False c1_cleaned = [] \<and>
  re_findall simple_course_pattern_2 0 ascii_unicodedata False c1_cleaned = []"
  by (simp add: c1_cleaned_def course_code_pattern_def simple_course_pattern_1_def
      simple_course_pattern_2_def eval_rx del: rep.simps)

lemma c1_line: "split_lines c1_cleaned = [c1_cleaned] \<and> strip c1_cleaned = c1_cleaned \<and>
  \<not> length c1_cleaned < 5 \<and>
  \<not> (\<exists>skip_word\<in>set skip_words. contains skip_word (upper ascii_unicodedata c1_cleaned))"
  by (simp add: c1_cleaned_def split_lines_def skip_words_def eval_text ascii_upper_def
      is_ascii_lower_def)

lemma c1_units: "extract_units ascii_unicodedata c1_cleaned = []"
  using c1_line c1_p1 c1_p2 c1_p3 c1_p4 c1_p5 c1_p6 c1_codes
  by (simp add: extract_units_def process_line_def unit_patterns_def apply_pattern_def
      Let_def lit_def)

text \<open>
  Claim C1, evaluated on the text that consists of the row itself. \<^verbatim>\<open>clean_text\<close>
  turns \<open>108\<close> into \<open>IO8\<close> and \<open>50\<close> into \<open>5O\<close>; every pattern asks for three
  or four digits in a row, so no unit is extracted at all, and none with the code
  \<open>CMT108\<close>.
\<close>

theorem C1_row_yields_no_unit:
  "ex_units (extract_structured_data ascii_unicodedata c1_row) = [] \<and>
   \<not> (\<exists>u\<in>set (ex_units (extract_structured_data ascii_unicodedata c1_row)).
        code u = lit ''CMT108'')"
  by (simp add: extract_structured_data_def c1_clean c1_units Let_def split: prod.splits)

subsection \<open>A course listed twice\<close>

lemma c3_clean: "clean_text ascii_unicodedata c3_text = c3_cleaned"
  by (simp add: c3_text_def c3_cleaned_def eval_text)

lemma c3_p1: "re_findall unit_pattern_1 4 ascii_unicodedata True c3_cleaned = []"
  by (simp add: c3_cleaned_def unit_pattern_1_def eval_rx del: rep.simps)

lemma c3_p2: "re_findall unit_pattern_2 4 ascii_unicodedata True c3_cleaned = []"
  by (simp add: c3_cleaned_def unit_pattern_2_def eval_rx del: rep.simps)

lemma c3_p3: "re_findall unit_pattern_3 3 ascii_unicodedata True c3_cleaned =
    [[lit ''CIT 3255'', lit ''Data Structures '', lit ''A''],
     [lit ''CIT 3255'', lit ''Data Structures '', lit ''A'']] \<and>
   re_search unit_pattern_3 ascii_unicodedata True c3_cleaned \<noteq> None"
  by (simp add: c3_cleaned_def unit_pattern_3_def eval_rx del: rep.simps)

lemma c3_p4: "re_findall unit_pattern_4 4 ascii_unicodedata True c3_cleaned = []"
  by (simp add: c3_cleaned_def unit_pattern_4_def eval_rx del: rep.simps)

lemma c3_p5: "re_findall unit_pattern_5 3 ascii_unicodedata True c3_cleaned = []"
  by (simp add: c3_cleaned_def unit_pattern_5_def eval_rx del: rep.simps)

lemma c3_p6: "re_findall unit_pattern_6 4 ascii_unicodedata True c3_cleaned = []"
  by (simp add: c3_cleaned_def unit_pattern_6_def eval_rx del: rep.simps)

lemma c3_code: "extract_course_code ascii_unicodedata (lit ''CIT 3255'') = Some (lit ''CIT3255'')"
  by (simp add: extract_course_code_def extract_course_code_pattern_def eval_rx del: rep.simps)

lemma c3_parse:
  "parse_unit_match ascii_unicodedata [lit ''CIT 3255'', lit ''Data Structures '', lit ''A''] = Some c3_unit"
  using c3_code
  by (simp add: parse_unit_match_def c3_unit_def clean_title_def normalize_grade_def grade_map_def
      is_valid_grade_def valid_grades_def determine_unit_status_def eval_text ascii_upper_def
      is_ascii_lower_def is_ascii_upper_def is_ascii_alpha_def is_ascii_digit_def ascii_lower_def)

lemma c3_valid: "is_valid_unit ascii_unicodedata c3_unit"
  by (simp add: is_valid_unit_def c3_unit_def lit_def ascii_unicodedata_def ascii_upper_def
      is_ascii_lower_def)

lemma c3_line: "split_lines c3_cleaned = [c3_cleaned] \<and> strip c3_cleaned = c3_cleaned \<and>
  \<not> length c3_cleaned < 5 \<and>
  \<not> (\<exists>skip_word\<in>set skip_words. contains skip_word (upper ascii_unicodedata c3_cleaned))"
  by (simp add: c3_cleaned_def split_lines_def skip_words_def eval_text ascii_upper_def
      is_ascii_lower_def)

lemma c3_units: "extract_units ascii_unicodedata c3_cleaned = [c3_unit, c3_unit]"
  using c3_line c3_p1 c3_p2 c3_p3 c3_p4 c3_p5 c3_p6 c3_parse c3_valid
  by (simp add: extract_units_def process_line_def unit_patterns_def apply_pattern_def
      add_parsed_unit_def Let_def)

text \<open>
  Claim C3, evaluated on a text with the same course on two lines. The loop over the
  pattern matches (lines 431 to 437) appends every valid unit and only then records its
  code; it never tests \<^verbatim>\<open>found_courses\<close>, as the fallback loops do. The result
  holds the code \<open>CIT3255\<close> twice and counts two units.
\<close>

theorem C3_repeated_code_is_kept_twice:
  "map code (ex_units (extract_structured_data ascii_unicodedata c3_text)) =
     [lit ''CIT3255'', lit ''CIT3255''] \<and>
   ex_total_units (extract_structured_data ascii_unicodedata c3_text) = 2"
  by (simp add: extract_structured_data_def c3_clean c3_units c3_unit_def Let_def lit_def
      split: prod.splits)


end
